theory Spec2Isabelle
  imports Complex_Main "HOL-Library.AList"
begin

section \<open>Python library functions used by the driver\<close>

text \<open>
  Python 2 byte strings are modelled as \<^typ>\<open>string\<close> (lists of 8-bit characters).
  \<open>py_strip chars s\<close> is \<open>s.strip(chars)\<close>, \<open>py_replace old new s\<close> is
  \<open>s.replace(old, new)\<close>, \<open>py_split sep s\<close> is \<open>s.split(sep)\<close> for a one-character
  separator, \<open>py_join sep ws\<close> is \<open>sep.join(ws)\<close>, and \<open>readline\<close> is the \<open>readline()\<close>
  method of a file object opened for reading: the file is the text still to be read, the
  result is the line read (with its newline, empty at end of file) and the text left.
\<close>

definition whitespace :: string where
  "whitespace = [CHR '' '', CHR 0x09, CHR 0x0A, CHR 0x0B, CHR 0x0C, CHR 0x0D]"

definition py_strip :: "string \<Rightarrow> string \<Rightarrow> string" where
  "py_strip chars s =
     rev (dropWhile (\<lambda>c. c \<in> set chars) (rev (dropWhile (\<lambda>c. c \<in> set chars) s)))"

function py_replace :: "string \<Rightarrow> string \<Rightarrow> string \<Rightarrow> string" where
  "py_replace old new s =
     (if old = [] then new @ concat (map (\<lambda>c. c # new) s)
      else if s = [] then []
      else if take (length old) s = old
        then new @ py_replace old new (drop (length old) s)
      else hd s # py_replace old new (tl s))"
  by pat_completeness auto
termination
  by (relation "measure (\<lambda>(old, new, s). length s)") auto

declare py_replace.simps [simp del]

fun py_split :: "char \<Rightarrow> string \<Rightarrow> string list" where
  "py_split sep [] = [[]]"
| "py_split sep (c # cs) =
     (if c = sep then [] # py_split sep cs
      else (case py_split sep cs of
              [] \<Rightarrow> [[c]]
            | w # ws \<Rightarrow> (c # w) # ws))"

fun py_join :: "string \<Rightarrow> string list \<Rightarrow> string" where
  "py_join sep [] = []"
| "py_join sep [w] = w"
| "py_join sep (w # v # ws) = w @ sep @ py_join sep (v # ws)"

definition readline :: "string \<Rightarrow> string \<times> string" where
  "readline f =
     (case dropWhile (\<lambda>c. c \<noteq> CHR 0x0A) f of
        [] \<Rightarrow> (f, [])
      | nl # rest \<Rightarrow> (takeWhile (\<lambda>c. c \<noteq> CHR 0x0A) f @ [nl], rest))"

definition py_path_join :: "string \<Rightarrow> string \<Rightarrow> string" where
  "py_path_join a b =
     (if b \<noteq> [] \<and> hd b = CHR ''/'' then b
      else if a = [] \<or> last a = CHR ''/'' then a @ b
      else a @ ''/'' @ b)"

definition digit_char :: "nat \<Rightarrow> char" where
  "digit_char n = char_of (48 + n)"

function show_nat :: "nat \<Rightarrow> string" where
  "show_nat n = (if n < 10 then [digit_char n] else show_nat (n div 10) @ [digit_char (n mod 10)])"
  by pat_completeness auto
termination
  by (relation "measure id") auto

declare show_nat.simps [simp del]

definition show_int :: "int \<Rightarrow> string" where
  "show_int i = (if i < 0 then CHR ''-'' # show_nat (nat (- i)) else show_nat (nat i))"

section \<open>The white diff comparator\<close>

definition WHITES :: string where
  "WHITES = [CHR '' '', CHR 0x09, CHR 0x0A]"

definition white_diff_canonicalize :: "string \<Rightarrow> string" where
  "white_diff_canonicalize s =
     (let s1 = foldl (\<lambda>s c. py_replace [c] [hd WHITES] s) s (tl WHITES)
      in py_join [hd WHITES] (filter (\<lambda>x. x \<noteq> []) (py_split (hd WHITES) s1)))"

text \<open>
  The read loop of \<open>white_diff\<close>. The source loops with \<open>while True\<close>, so the model is a
  partial function in the option monad: \<open>None\<close> would mean that the loop never returns.
\<close>

partial_function (option) white_diff :: "string \<Rightarrow> string \<Rightarrow> bool option" where
  "white_diff output res =
     (let lout = fst (readline output); output' = snd (readline output);
          lres = fst (readline res); res' = snd (readline res)
      in if lres = [] \<and> lout = [] then Some True
         else if lres = [] \<or> lout = [] then
           (let lout = py_strip WHITES lout; lres = py_strip WHITES lres
            in if lout \<noteq> [] \<or> lres \<noteq> [] then Some False
               else white_diff output' res')
         else
           (let lout = white_diff_canonicalize lout; lres = white_diff_canonicalize lres
            in if lout \<noteq> lres then Some False
               else white_diff output' res'))"

declare white_diff.simps [code]

section \<open>Data model of the driver\<close>

text \<open>
  The status of a sandbox run, as \<open>Sandbox.get_exit_status()\<close> reports it. The class
  \<open>Sandbox\<close> is not part of the sources at hand; \<open>EXIT_OTHER\<close> stands for any value
  besides the six named constants, which the driver handles by a final fall-through branch.
\<close>

datatype exit_status =
    EXIT_OK | EXIT_TIMEOUT | EXIT_SIGNAL | EXIT_SANDBOX_ERROR | EXIT_SYSCALL | EXIT_FILE_ACCESS
  | EXIT_OTHER

text \<open>
  What reading the first line of a file through \<open>codecs.open(name, "r", "utf-8")\<close> gives:
  the file cannot be opened (\<open>IOError\<close>), the line is not UTF-8 (\<open>UnicodeDecodeError\<close>), or
  the decoded line.
\<close>

datatype host_file = NoSuchFile | Undecodable | FirstLine string

text \<open>
  A sandbox object: its configuration attributes, which the driver writes, and the answers
  of its methods, which belong to the \<open>Sandbox\<close> class and to the run inside it and are
  therefore parameters of the model. A method that can raise \<open>IOError\<close> or \<open>OSError\<close>
  answers \<open>False\<close> or \<open>None\<close> when it does.
\<close>

record sandbox =
  path :: string
  chdir :: string
  preserve_env :: bool
  filter_syscalls :: nat
  allow_fork :: bool
  file_check :: nat
  set_env :: "string \<rightharpoonup> string"
  allow_path :: "string list"
  allow_syscall :: "string list"
  timeout :: real
  wallclock_timeout :: real
  address_space :: "int option"
  stdout_file :: string
  stderr_file :: string
  relative_path :: "string \<Rightarrow> string"
  create_file_from_storage :: "string \<Rightarrow> string \<Rightarrow> bool \<Rightarrow> bool"
  sandbox_execute :: "string list \<Rightarrow> bool"
  get_exit_status :: exit_status
  get_exit_code :: int
  get_killing_signal :: int
  get_stats :: string
  file_exists :: "string \<Rightarrow> bool"
  get_file :: "string \<Rightarrow> string option"
  get_file_to_string :: "string \<Rightarrow> nat \<Rightarrow> string option"
  get_file_to_storage :: "string \<Rightarrow> string \<Rightarrow> string option"
  sandbox_delete :: bool
  codecs_open :: "string \<Rightarrow> host_file"

text \<open>
  Everything the driver reads and does not own: the configuration flag, the submission's
  files and the task, the sandbox factory (\<open>new_sandbox w k\<close> is the \<open>k\<close>-th call of
  \<open>Sandbox(service)\<close>, \<open>None\<close> when it raises), the helpers of \<open>cms.service.Utils\<close>, and
  the Python codecs and number parser (\<open>utf8_decode\<close> is \<open>str.decode("utf-8")\<close>,
  \<open>py_float\<close> is \<open>float\<close> on a string, \<open>unicode_strip\<close> is \<open>unicode.strip()\<close>; \<open>None\<close>
  stands for \<open>UnicodeDecodeError\<close> and \<open>ValueError\<close>).
\<close>

record env =
  keep_sandbox :: bool
  submission_id :: int
  verify_source :: "bool \<times> string option"
  files :: "(string \<times> string) list"
  testcases :: "(string \<times> string) list"
  managers :: "(string \<times> string) list"
  time_limit :: real
  memory_limit :: int
  new_sandbox :: "nat \<Rightarrow> sandbox option"
  get_compilation_command :: "string \<Rightarrow> string \<Rightarrow> string \<Rightarrow> string list"
  filter_ansi_escape :: "string \<Rightarrow> string"
  utf8_decode :: "string \<Rightarrow> string option"
  py_float :: "string \<Rightarrow> real option"
  unicode_strip :: "string \<Rightarrow> string"

record evaluation =
  ev_text :: "string option"
  ev_outcome :: "real option"
  ev_num :: nat

text \<open>Records staged in the session: references to the objects of the submission.\<close>

datatype staged = Executable string string | Evaluation nat

datatype sandbox_op =
    OpCreate | OpCreateFile string | OpExecute "string list" | OpGetFileToString string
  | OpGetFile string | OpGetFileToStorage string | OpDelete

text \<open>
  The state the driver works on: the submission's compilation result, executables and
  evaluations, the session, the attributes \<open>self.sandbox\<close> and \<open>self.executable_filename\<close>
  (\<open>None\<close> while unset), and a journal of the sandbox operations performed, each with the
  number of its sandbox and whether it completed. Log messages are not modelled: the logger
  is write-only and no branch of the driver depends on it.
\<close>

record driver =
  compilation_outcome :: "string option"
  compilation_text :: "string option"
  executables :: "(string \<times> string) list"
  evaluations :: "evaluation list"
  session :: "staged list"
  sandbox :: "(nat \<times> sandbox) option"
  executable_filename :: "string option"
  n_sandboxes :: nat
  journal :: "(nat \<times> sandbox_op \<times> bool) list"

datatype exn =
    JobException | TypeError | IndexError | KeyError | AttributeError | IOError

text \<open>A call returns a value, raises, or (were \<open>white_diff\<close> not to return) hangs.\<close>

datatype 'a result = Return 'a | Raise exn | Hang

text \<open>
  A step of the driver is a function from the state to a result and the next state.
  \<open>bnd m f\<close> runs \<open>m\<close> and then \<open>f\<close> on the value of \<open>m\<close>, as two successive
  statements do; an exception raised by \<open>m\<close> ends the run there, since neither \<open>compile\<close>
  nor \<open>execute_single\<close> catches what its helpers raise. \<open>py_raise\<close> raises an exception,
  \<open>the_sandbox\<close> reads the attribute \<open>self.sandbox\<close> (\<open>AttributeError\<close> while it is
  unset), \<open>configure\<close> assigns to attributes of the sandbox object, and \<open>record_op\<close>
  enters an operation in the journal.
\<close>

definition bnd ::
  "(driver \<Rightarrow> 'a result \<times> driver) \<Rightarrow> ('a \<Rightarrow> driver \<Rightarrow> 'b result \<times> driver)
     \<Rightarrow> driver \<Rightarrow> 'b result \<times> driver" where
  "bnd m f d =
     (case m d of
        (Return a, d') \<Rightarrow> f a d'
      | (Raise e, d') \<Rightarrow> (Raise e, d')
      | (Hang, d') \<Rightarrow> (Hang, d'))"

definition py_raise :: "exn \<Rightarrow> driver \<Rightarrow> 'a result \<times> driver" where
  "py_raise e d = (Raise e, d)"

definition record_op :: "nat \<Rightarrow> sandbox_op \<Rightarrow> bool \<Rightarrow> driver \<Rightarrow> driver" where
  "record_op n op ok d = d\<lparr>journal := journal d @ [(n, op, ok)]\<rparr>"

definition the_sandbox :: "driver \<Rightarrow> (nat \<times> sandbox) result \<times> driver" where
  "the_sandbox d =
     (case sandbox d of None \<Rightarrow> (Raise AttributeError, d) | Some s \<Rightarrow> (Return s, d))"

definition configure :: "(sandbox \<Rightarrow> sandbox) \<Rightarrow> driver \<Rightarrow> unit result \<times> driver" where
  "configure f d =
     (case sandbox d of
        None \<Rightarrow> (Raise AttributeError, d)
      | Some (n, sb) \<Rightarrow> (Return (), d\<lparr>sandbox := Some (n, f sb)\<rparr>))"

section \<open>Safe sandbox helpers\<close>

definition safe_delete_sandbox :: "env \<Rightarrow> driver \<Rightarrow> driver" where
  "safe_delete_sandbox w d =
     (case sandbox d of
        None \<Rightarrow> d
      | Some (n, sb) \<Rightarrow>
          if keep_sandbox w then d else record_op n OpDelete (sandbox_delete sb) d)"

definition safe_create_sandbox :: "env \<Rightarrow> driver \<Rightarrow> unit result \<times> driver" where
  "safe_create_sandbox w d =
     (let n = n_sandboxes d
      in case new_sandbox w n of
           Some sb \<Rightarrow>
             (Return (), record_op n OpCreate True (d\<lparr>sandbox := Some (n, sb), n_sandboxes := Suc n\<rparr>))
         | None \<Rightarrow>
             (Raise JobException,
              safe_delete_sandbox w (record_op n OpCreate False (d\<lparr>n_sandboxes := Suc n\<rparr>))))"

definition safe_create_file_from_storage ::
  "env \<Rightarrow> string \<Rightarrow> string \<Rightarrow> bool \<Rightarrow> driver \<Rightarrow> unit result \<times> driver" where
  "safe_create_file_from_storage w name digest executable d =
     (case sandbox d of
        None \<Rightarrow> (Raise AttributeError, d)
      | Some (n, sb) \<Rightarrow>
          if create_file_from_storage sb name digest executable
          then (Return (), record_op n (OpCreateFile name) True d)
          else (Raise JobException, safe_delete_sandbox w (record_op n (OpCreateFile name) False d)))"

definition safe_get_file_to_storage ::
  "env \<Rightarrow> string \<Rightarrow> string \<Rightarrow> driver \<Rightarrow> string result \<times> driver" where
  "safe_get_file_to_storage w name msg d =
     (case sandbox d of
        None \<Rightarrow> (Raise AttributeError, d)
      | Some (n, sb) \<Rightarrow>
          (case get_file_to_storage sb name msg of
             Some digest \<Rightarrow> (Return digest, record_op n (OpGetFileToStorage name) True d)
           | None \<Rightarrow>
               (Raise JobException,
                safe_delete_sandbox w (record_op n (OpGetFileToStorage name) False d))))"

definition safe_get_file_to_string :: "env \<Rightarrow> string \<Rightarrow> driver \<Rightarrow> string result \<times> driver" where
  "safe_get_file_to_string w name d =
     (case sandbox d of
        None \<Rightarrow> (Raise AttributeError, d)
      | Some (n, sb) \<Rightarrow>
          (case get_file_to_string sb name 1024 of
             Some s \<Rightarrow> (Return s, record_op n (OpGetFileToString name) True d)
           | None \<Rightarrow>
               (Raise JobException,
                safe_delete_sandbox w (record_op n (OpGetFileToString name) False d))))"

definition safe_get_file :: "env \<Rightarrow> string \<Rightarrow> driver \<Rightarrow> string result \<times> driver" where
  "safe_get_file w name d =
     (case sandbox d of
        None \<Rightarrow> (Raise AttributeError, d)
      | Some (n, sb) \<Rightarrow>
          (case get_file sb name of
             Some f \<Rightarrow> (Return f, record_op n (OpGetFile name) True d)
           | None \<Rightarrow>
               (Raise JobException, safe_delete_sandbox w (record_op n (OpGetFile name) False d))))"

definition safe_sandbox_execute :: "env \<Rightarrow> string list \<Rightarrow> driver \<Rightarrow> unit result \<times> driver" where
  "safe_sandbox_execute w command d =
     (case sandbox d of
        None \<Rightarrow> (Raise AttributeError, d)
      | Some (n, sb) \<Rightarrow>
          if sandbox_execute sb command
          then (Return (), record_op n (OpExecute command) True d)
          else (Raise JobException, safe_delete_sandbox w (record_op n (OpExecute command) False d)))"

section \<open>Finalisation helpers\<close>

text \<open>
  In \<open>finish_compilation\<close> the handler of \<open>UnicodeDecodeError\<close> calls the attribute
  \<open>compilation_text\<close> instead of assigning to it; the attribute holds \<open>None\<close> or a
  string, so the call raises \<open>TypeError\<close>.
\<close>

definition finish_compilation ::
  "env \<Rightarrow> bool \<Rightarrow> bool \<Rightarrow> string \<Rightarrow> driver \<Rightarrow> bool result \<times> driver" where
  "finish_compilation w success compilation_success text d =
     (let d1 = safe_delete_sandbox w d
      in if \<not> success then (Return False, d1)
         else
           (let d2 = d1\<lparr>compilation_outcome :=
                         Some (if compilation_success then ''ok'' else ''fail'')\<rparr>
            in case utf8_decode w text of
                 Some u \<Rightarrow> (Return True, d2\<lparr>compilation_text := Some u\<rparr>)
               | None \<Rightarrow> (Raise TypeError, d2)))"

definition finish_single_execution ::
  "env \<Rightarrow> nat \<Rightarrow> bool \<Rightarrow> real \<Rightarrow> string \<Rightarrow> driver \<Rightarrow> bool result \<times> driver" where
  "finish_single_execution w test_number success outcome text d =
     (let d1 = safe_delete_sandbox w d
      in if \<not> success then (Return False, d1)
         else if test_number < length (evaluations d1) then
           (Return True,
            d1\<lparr>evaluations := (evaluations d1)
                  [test_number := (evaluations d1 ! test_number)
                     \<lparr>ev_text := Some text, ev_outcome := Some outcome\<rparr>]\<rparr>)
         else (Raise IndexError, d1))"

definition finish_evaluation :: "bool \<Rightarrow> driver \<Rightarrow> bool result \<times> driver" where
  "finish_evaluation success d = (if \<not> success then (Return False, d) else (Return True, d))"

section \<open>The compile pipeline\<close>

definition compilation_report :: "string \<Rightarrow> sandbox \<Rightarrow> string \<Rightarrow> string \<Rightarrow> string" where
  "compilation_report headline sb stdout stderr =
     headline @ '' '' @ get_stats sb @ ''\<newline>Compiler standard output:\<newline>'' @ stdout @
     ''\<newline>Compiler standard error:\<newline>'' @ stderr"

text \<open>
  Modelled from the spec: the constructor \<open>Executable(digest, filename, submission)\<close> of
  \<open>cms.db.SQLAlchemyAll\<close> is missing from the sources; the spec has the new record linked
  to its owning submission, so adding it to the session also enters it in the submission's
  executables under its file name.
\<close>

definition add_executable :: "string \<Rightarrow> string \<Rightarrow> driver \<Rightarrow> unit result \<times> driver" where
  "add_executable digest filename d =
     (Return (),
      d\<lparr>session := session d @ [Executable digest filename],
        executables := AList.update filename digest (executables d)\<rparr>)"

definition compile :: "env \<Rightarrow> driver \<Rightarrow> bool result \<times> driver" where
  "compile w =
     (case verify_source w of
        (valid, language) \<Rightarrow>
          if \<not> valid \<or> language = None
          then finish_compilation w True False ''Invalid files in submission''
          else if length (files w) \<noteq> 1
          then finish_compilation w True False ''Invalid files in submission''
          else
                 (let source_filename = fst (hd (files w));
                      source_digest = snd (hd (files w));
                      executable_filename =
                        py_replace (''.'' @ the language) [] source_filename
                  in bnd (safe_create_sandbox w) (\<lambda>_.
                     bnd (safe_create_file_from_storage w source_filename source_digest False) (\<lambda>_.
                     bnd the_sandbox (\<lambda>(n, sb).
                     let command =
                           get_compilation_command w (the language) source_filename executable_filename
                     in
                     bnd (configure (\<lambda>s. s
                            \<lparr>chdir := path s,
                             preserve_env := True,
                             filter_syscalls := 0,
                             allow_fork := True,
                             file_check := 2,
                             set_env := (set_env s)(''TMPDIR'' \<mapsto> path s),
                             allow_path := [''/etc/'', ''/lib/'', ''/usr/'', path s @ ''/''],
                             timeout := 8,
                             wallclock_timeout := 10,
                             address_space := Some (256 * 1024),
                             stdout_file := relative_path s ''compiler_stdout.txt'',
                             stderr_file := relative_path s ''compiler_stderr.txt''\<rparr>)) (\<lambda>_.
                     bnd (safe_sandbox_execute w command) (\<lambda>_.
                     let exit_status = get_exit_status sb;
                         exit_code = get_exit_code sb
                     in
                     bnd (safe_get_file_to_string w ''compiler_stdout.txt'') (\<lambda>stdout.
                     let stdout = (if py_strip whitespace stdout = [] then ''(empty)\<newline>'' else stdout)
                     in
                     bnd (safe_get_file_to_string w ''compiler_stderr.txt'') (\<lambda>stderr.
                     let stderr = (if py_strip whitespace stderr = [] then ''(empty)\<newline>'' else stderr)
                     in
                     if exit_status = EXIT_OK \<and> exit_code = 0 then
                       bnd (safe_get_file_to_storage w executable_filename
                              (''Executable '' @ executable_filename @ '' for submission '' @
                               show_int (submission_id w))) (\<lambda>digest.
                       bnd (add_executable digest executable_filename) (\<lambda>_.
                       finish_compilation w True True (compilation_report ''OK'' sb stdout stderr)))
                     else if exit_status = EXIT_OK \<and> exit_code \<noteq> 0 then
                       finish_compilation w True False
                         (compilation_report ''Failed'' sb stdout stderr)
                     else if exit_status = EXIT_TIMEOUT then
                       finish_compilation w True False
                         (compilation_report ''Time out'' sb stdout stderr)
                     else if exit_status = EXIT_SIGNAL then
                       finish_compilation w True False
                         (''Killed with signal '' @ show_int (get_killing_signal sb) @ '' '' @
                          get_stats sb @
                          ''\<newline>This could be triggered by violating memory limits'' @
                          ''\<newline>Compiler standard output:\<newline>'' @ stdout @
                          ''\<newline>Compiler standard error:\<newline>'' @ stderr)
                     else if exit_status = EXIT_SANDBOX_ERROR then
                       finish_compilation w False False []
                     else if exit_status = EXIT_SYSCALL then
                       finish_compilation w False False []
                     else if exit_status = EXIT_FILE_ACCESS then
                       finish_compilation w False False []
                     else finish_compilation w False False [])))))))))"

section \<open>The per-testcase executor\<close>

text \<open>
  Reading \<open>self.executable_filename\<close> (set by \<open>execute\<close>), looking the name up in the
  submission's executables and indexing the testcases of the task raise
  \<open>AttributeError\<close>, \<open>KeyError\<close> and \<open>IndexError\<close> when there is nothing to read.
  \<open>call_white_diff\<close> is the call of the comparator on the two files.
\<close>

definition get_executable_filename :: "driver \<Rightarrow> string result \<times> driver" where
  "get_executable_filename d =
     (case executable_filename d of
        None \<Rightarrow> (Raise AttributeError, d)
      | Some name \<Rightarrow> (Return name, d))"

definition get_executable_digest :: "string \<Rightarrow> driver \<Rightarrow> string result \<times> driver" where
  "get_executable_digest name d =
     (case map_of (executables d) name of
        None \<Rightarrow> (Raise KeyError, d)
      | Some digest \<Rightarrow> (Return digest, d))"

definition get_testcase :: "env \<Rightarrow> nat \<Rightarrow> driver \<Rightarrow> (string \<times> string) result \<times> driver" where
  "get_testcase w test_number d =
     (if test_number < length (testcases w) then (Return (testcases w ! test_number), d)
      else (Raise IndexError, d))"

definition call_white_diff :: "string \<Rightarrow> string \<Rightarrow> driver \<Rightarrow> bool result \<times> driver" where
  "call_white_diff out_file res_file d =
     (case white_diff out_file res_file of
        None \<Rightarrow> (Hang, d)
      | Some b \<Rightarrow> (Return b, d))"

definition execute_single :: "env \<Rightarrow> nat \<Rightarrow> driver \<Rightarrow> bool result \<times> driver" where
  "execute_single w test_number =
     bnd (safe_create_sandbox w) (\<lambda>_.
     bnd get_executable_filename (\<lambda>executable_name.
     bnd (get_executable_digest executable_name) (\<lambda>executable_digest.
     bnd (safe_create_file_from_storage w executable_name executable_digest True) (\<lambda>_.
     bnd (get_testcase w test_number) (\<lambda>(testcase_input, testcase_output).
     bnd (safe_create_file_from_storage w ''input.txt'' testcase_input False) (\<lambda>_.
     bnd the_sandbox (\<lambda>(n, sb).
     bnd (configure (\<lambda>s. s
            \<lparr>chdir := path s,
             filter_syscalls := 2,
             timeout := time_limit w,
             address_space := Some (memory_limit w * 1024),
             file_check := 1,
             allow_path :=
               [''input.txt'', ''output.txt''] @ [''/proc/self/exe''] @ [''/proc/meminfo''],
             stdout_file := py_path_join (path s) ''submission_stdout.txt'',
             stderr_file := py_path_join (path s) ''submission_stderr.txt'',
             allow_syscall := allow_syscall s @ [''getrlimit'', ''rt_sigaction'']\<rparr>)) (\<lambda>_.
     bnd (safe_sandbox_execute w [relative_path sb executable_name]) (\<lambda>_.
     let exit_status = get_exit_status sb;
         exit_code = get_exit_code sb
     in
     if exit_status = EXIT_TIMEOUT then
       finish_single_execution w test_number True 0 ''Execution timed out\<newline>''
     else if exit_status = EXIT_SIGNAL then
       finish_single_execution w test_number True 0
         (''Execution killed with signal '' @ show_int (get_killing_signal sb) @ ''\<newline>'')
     else if exit_status = EXIT_SANDBOX_ERROR then
       finish_single_execution w test_number False 0 []
     else if exit_status = EXIT_SYSCALL then
       finish_single_execution w test_number True 0
         ''Execution killed because of forbidden syscall''
     else if exit_status = EXIT_FILE_ACCESS then
       finish_single_execution w test_number True 0
         ''Execution killed because of forbidden file access''
     else if exit_status \<noteq> EXIT_OK then
       finish_single_execution w test_number False 0 []
     else if \<not> file_exists sb ''output.txt'' then
       finish_single_execution w test_number True 0
         ''Execution didn't produce file output.txt''
     else
       bnd (safe_create_file_from_storage w ''res.txt'' testcase_output False) (\<lambda>_.
       let stdout_filename = py_path_join (path sb) ''manager_stdout.txt'';
           stderr_filename = py_path_join (path sb) ''manager_stderr.txt''
       in
       bnd (configure (\<lambda>s. s
              \<lparr>filter_syscalls := 2,
               timeout := 0,
               address_space := None,
               file_check := 1,
               allow_path := [''input.txt'', ''output.txt'', ''res.txt''],
               stdout_file := stdout_filename,
               stderr_file := stderr_filename\<rparr>)) (\<lambda>_.
       if length (managers w) = 0 then
         bnd (safe_get_file w ''output.txt'') (\<lambda>out_file.
         bnd (safe_get_file w ''res.txt'') (\<lambda>res_file.
         bnd (call_white_diff out_file res_file) (\<lambda>equal.
         if equal then finish_single_execution w test_number True 1 ''Output file is correct''
         else finish_single_execution w test_number True 0 ''Output file isn't correct'')))
       else
         (let manager_filename = fst (hd (managers w));
              manager_digest = snd (hd (managers w))
          in
          bnd (safe_create_file_from_storage w manager_filename manager_digest True) (\<lambda>_.
          bnd (safe_sandbox_execute w
                 [''./'' @ manager_filename, ''input.txt'', ''res.txt'', ''output.txt'']) (\<lambda>_.
          if codecs_open sb stdout_filename = NoSuchFile then py_raise IOError
          else if codecs_open sb stderr_filename = NoSuchFile then py_raise IOError
          else
            (case codecs_open sb stdout_filename of
               FirstLine stdout_line \<Rightarrow>
                 (case codecs_open sb stderr_filename of
                    FirstLine stderr_line \<Rightarrow>
                      (case py_float w (unicode_strip w stdout_line) of
                         Some outcome \<Rightarrow>
                           finish_single_execution w test_number True outcome
                             (filter_ansi_escape w stderr_line)
                       | None \<Rightarrow> finish_single_execution w test_number False 0 [])
                  | _ \<Rightarrow> finish_single_execution w test_number False 0 [])
             | _ \<Rightarrow> finish_single_execution w test_number False 0 [])))))))))))))))"

section \<open>The evaluate pipeline\<close>

text \<open>
  Modelled from the spec: the constructor \<open>Evaluation(text, outcome, num, submission)\<close> of
  \<open>cms.db.SQLAlchemyAll\<close> is missing from the sources; the spec has an empty evaluation
  record created for each missing testcase index, so adding it to the session also appends
  it to the submission's ordered list of evaluations.
\<close>

definition add_evaluation :: "driver \<Rightarrow> nat \<Rightarrow> driver" where
  "add_evaluation d test_number =
     d\<lparr>session := session d @ [Evaluation test_number],
       evaluations := evaluations d @
         [\<lparr>ev_text = None, ev_outcome = None, ev_num = test_number\<rparr>]\<rparr>"

fun execute_loop :: "env \<Rightarrow> nat list \<Rightarrow> driver \<Rightarrow> bool result \<times> driver" where
  "execute_loop w [] d = finish_evaluation True d"
| "execute_loop w (test_number # rest) d =
     (case execute_single w test_number d of
        (Return success, d') \<Rightarrow>
          if \<not> success then finish_evaluation False d' else execute_loop w rest d'
      | (Raise e, d') \<Rightarrow> (Raise e, d')
      | (Hang, d') \<Rightarrow> (Hang, d'))"

definition execute :: "env \<Rightarrow> driver \<Rightarrow> bool result \<times> driver" where
  "execute w d =
     (if length (executables d) \<noteq> 1 then finish_evaluation False d
      else
        (let d1 = d\<lparr>executable_filename := Some (fst (hd (executables d)))\<rparr>;
             d2 = foldl add_evaluation d1 [length (evaluations d1) ..< length (testcases w)]
         in execute_loop w [0 ..< length (testcases w)] d2))"

section \<open>Notions used to state the properties\<close>

text \<open>
  The lines of a text as successive calls of \<open>readline\<close> return them, the canonical form of
  each line without the blank lines at the end, and the changes of whitespace that leave
  every token of a text whole: a space or a tab is inserted or removed next to a whitespace
  character or at either end of the text, or a newline is appended.
\<close>

fun lines_of :: "string \<Rightarrow> string list" where
  "lines_of [] = []"
| "lines_of (c # cs) =
     (if c = CHR 0x0A then [c] # lines_of cs
      else (case lines_of cs of
              [] \<Rightarrow> [[c]]
            | l # ls \<Rightarrow> (c # l) # ls))"

fun trim_blank :: "string list \<Rightarrow> string list" where
  "trim_blank [] = []"
| "trim_blank (l # ls) = (if l = [] \<and> trim_blank ls = [] then [] else l # trim_blank ls)"

definition tokens :: "string \<Rightarrow> string list" where
  "tokens l =
     filter (\<lambda>x. x \<noteq> [])
       (py_split (CHR '' '') (map (\<lambda>c. if c \<in> set WHITES then CHR '' '' else c) l))"

definition canonical_lines :: "string \<Rightarrow> string list" where
  "canonical_lines s = trim_blank (map white_diff_canonicalize (lines_of s))"

definition at_gap :: "string \<Rightarrow> string \<Rightarrow> bool" where
  "at_gap xs ys = (xs = [] \<or> last xs \<in> set WHITES \<or> ys = [] \<or> hd ys \<in> set WHITES)"

inductive ws_variant :: "string \<Rightarrow> string \<Rightarrow> bool" where
  same: "ws_variant s s"
| inserted: "ws_variant s (xs @ ys) \<Longrightarrow> c = CHR '' '' \<or> c = CHR 0x09 \<Longrightarrow> at_gap xs ys
               \<Longrightarrow> ws_variant s (xs @ c # ys)"
| removed: "ws_variant s (xs @ c # ys) \<Longrightarrow> c = CHR '' '' \<or> c = CHR 0x09 \<Longrightarrow> at_gap xs ys
               \<Longrightarrow> ws_variant s (xs @ ys)"
| blank_line: "ws_variant s t \<Longrightarrow> ws_variant s (t @ [CHR 0x0A])"

subsection \<open>A sample submission\<close>

text \<open>
  Concrete inputs on which the driver is run in the examples below: a one-file C submission,
  a task with one testcase and no grader, and a sandbox in which every operation succeeds and
  the program's output equals the expected output. \<open>decimal_float\<close> and \<open>ascii_decode\<close>
  stand in for Python's \<open>float\<close> and UTF-8 codec in these examples: they agree with them on
  plain decimal literals and on ASCII text, which is all the examples use, and reject a text
  that holds the byte \<open>0xFF\<close>, which no UTF-8 text contains; on other inputs they accept
  less than Python does.
\<close>

definition is_digit :: "char \<Rightarrow> bool" where
  "is_digit c = (48 \<le> (of_char c :: nat) \<and> (of_char c :: nat) \<le> 57)"

definition digits_value :: "string \<Rightarrow> nat" where
  "digits_value ds = foldl (\<lambda>n c. 10 * n + (of_char c - 48)) 0 ds"

definition decimal_float :: "string \<Rightarrow> real option" where
  "decimal_float s =
     (let negative = (s \<noteq> [] \<and> hd s = CHR ''-'');
          body = (if s \<noteq> [] \<and> (hd s = CHR ''-'' \<or> hd s = CHR ''+'') then tl s else s);
          whole = takeWhile is_digit body;
          rest = dropWhile is_digit body;
          frac = (if rest \<noteq> [] \<and> hd rest = CHR ''.'' then tl rest else []);
          magnitude = real (digits_value (whole @ frac)) / 10 ^ length frac
      in if (rest = [] \<or> hd rest = CHR ''.'') \<and> list_all is_digit frac \<and> whole @ frac \<noteq> []
         then Some (if negative then - magnitude else magnitude)
         else None)"

definition ascii_decode :: "string \<Rightarrow> string option" where
  "ascii_decode s = (if list_all (\<lambda>c. (of_char c :: nat) < 128) s then Some s else None)"

definition demo_sandbox :: sandbox where
  "demo_sandbox =
     \<lparr>path = ''/tmp/box'', chdir = [], preserve_env = False, filter_syscalls = 0,
      allow_fork = False, file_check = 0, set_env = Map.empty, allow_path = [],
      allow_syscall = [], timeout = 0, wallclock_timeout = 0, address_space = None,
      stdout_file = [], stderr_file = [],
      relative_path = (\<lambda>name. ''./'' @ name),
      create_file_from_storage = (\<lambda>name digest executable. True),
      sandbox_execute = (\<lambda>command. True),
      get_exit_status = EXIT_OK, get_exit_code = 0, get_killing_signal = 0,
      get_stats = ''[0.1 sec]'',
      file_exists = (\<lambda>name. True),
      get_file = (\<lambda>name. Some ''7\<newline>''),
      get_file_to_string = (\<lambda>name maxlen. Some []),
      get_file_to_storage = (\<lambda>name msg. Some ''d-exe''),
      sandbox_delete = True,
      codecs_open = (\<lambda>name. if name = ''/tmp/box/manager_stdout.txt'' then FirstLine ''0.5\<newline>''
                             else FirstLine ''partial credit\<newline>'')\<rparr>"

definition demo_env :: env where
  "demo_env =
     \<lparr>keep_sandbox = False, submission_id = 1,
      verify_source = (True, Some ''c''),
      files = [(''sum.c'', ''d-src'')],
      testcases = [(''d-in'', ''d-out'')],
      managers = [],
      time_limit = 1, memory_limit = 65536,
      new_sandbox = (\<lambda>k. Some demo_sandbox),
      get_compilation_command = (\<lambda>language source exe. [''/usr/bin/gcc'', ''-o'', exe, source]),
      filter_ansi_escape = (\<lambda>s. s),
      utf8_decode = ascii_decode,
      py_float = decimal_float,
      unicode_strip = py_strip whitespace\<rparr>"

definition demo_driver :: driver where
  "demo_driver =
     \<lparr>compilation_outcome = None, compilation_text = None, executables = [],
      evaluations = [], session = [], sandbox = None, executable_filename = None,
      n_sandboxes = 0, journal = []\<rparr>"


definition demo_ready :: driver where
  "demo_ready =
     demo_driver\<lparr>executables := [(''sum'', ''d-exe'')], executable_filename := Some ''sum'',
       evaluations := [\<lparr>ev_text = None, ev_outcome = None, ev_num = 0\<rparr>]\<rparr>"

definition demo_stale :: driver where
  "demo_stale =
     demo_driver\<lparr>executables := [(''sum'', ''d-exe'')],
       evaluations := [\<lparr>ev_text = None, ev_outcome = None, ev_num = 0\<rparr>,
                       \<lparr>ev_text = None, ev_outcome = None, ev_num = 1\<rparr>]\<rparr>"

subsection \<open>Variants of the sample\<close>

text \<open>
  The sample with a sandbox factory that raises, with a sandbox that reports an internal
  error, with such a sandbox from which moreover the output of the compiler cannot be read,
  with a sandbox from which the executable cannot be extracted, with a compiler that
  writes a byte outside UTF-8 to its standard error, and with a grader whose first line of
  standard output is given.
\<close>

definition broken_factory_env :: env where
  "broken_factory_env = demo_env\<lparr>new_sandbox := (\<lambda>k. None)\<rparr>"

definition faulty_sandbox :: sandbox where
  "faulty_sandbox = demo_sandbox\<lparr>get_exit_status := EXIT_SANDBOX_ERROR\<rparr>"

definition faulty_env :: env where
  "faulty_env = demo_env\<lparr>new_sandbox := (\<lambda>k. Some faulty_sandbox)\<rparr>"

definition unreadable_sandbox :: sandbox where
  "unreadable_sandbox = faulty_sandbox\<lparr>get_file_to_string := (\<lambda>name maxlen. None)\<rparr>"

definition unreadable_env :: env where
  "unreadable_env = demo_env\<lparr>new_sandbox := (\<lambda>k. Some unreadable_sandbox)\<rparr>"

definition no_store_sandbox :: sandbox where
  "no_store_sandbox = demo_sandbox\<lparr>get_file_to_storage := (\<lambda>name msg. None)\<rparr>"

definition no_store_env :: env where
  "no_store_env = demo_env\<lparr>new_sandbox := (\<lambda>k. Some no_store_sandbox)\<rparr>"

definition latin1_sandbox :: sandbox where
  "latin1_sandbox =
     demo_sandbox\<lparr>get_file_to_string :=
       (\<lambda>name maxlen. if name = ''compiler_stderr.txt''
                        then Some (''warning: caf'' @ [CHR 0xFF] @ ''\<newline>'') else Some [])\<rparr>"

definition latin1_env :: env where
  "latin1_env = demo_env\<lparr>new_sandbox := (\<lambda>k. Some latin1_sandbox)\<rparr>"

definition grader_sandbox :: "string \<Rightarrow> sandbox" where
  "grader_sandbox stdout_line =
     demo_sandbox\<lparr>codecs_open :=
       (\<lambda>name. if name = ''/tmp/box/manager_stdout.txt'' then FirstLine stdout_line
                else FirstLine ''partial credit\<newline>'')\<rparr>"

definition grader_env :: "string \<Rightarrow> env" where
  "grader_env stdout_line =
     demo_env\<lparr>managers := [(''grader'', ''d-grader'')],
       new_sandbox := (\<lambda>k. Some (grader_sandbox stdout_line))\<rparr>"

subsection \<open>Paths through the pipelines\<close>

text \<open>
  Conditions on the inputs under which a run reaches a given point of a pipeline.
  \<open>compiler_was_launched w d sb\<close>: \<open>compile\<close>, started in state \<open>d\<close>, accepts the
  submission, obtains the sandbox \<open>sb\<close>, stages the source and launches the compiler;
  \<open>compiler_output_read sb\<close>: the two output files of the compiler can be read from the
  sandbox; \<open>compiler_was_run w d sb\<close>: both. \<open>candidate_was_run\<close>: \<open>execute_single\<close> obtains \<open>sb\<close>, stages executable and
  input and launches the program. \<open>grader_was_run\<close>: moreover the program ended with status
  OK and left an output file, the expected output and the grader were staged, the grader was
  launched and both files of its output can be opened. \<open>executable_name\<close>,
  \<open>extracted_executable\<close> and \<open>compile_success_text\<close> are the file name, the result of the
  extraction into the store and the compilation text that \<open>compile\<close> computes on its
  success branch.
\<close>

definition executable_name :: "env \<Rightarrow> string" where
  "executable_name w =
     py_replace (''.'' @ the (snd (verify_source w))) [] (fst (hd (files w)))"

definition compiler_was_launched :: "env \<Rightarrow> driver \<Rightarrow> sandbox \<Rightarrow> bool" where
  "compiler_was_launched w d sb =
     (fst (verify_source w) \<and> snd (verify_source w) \<noteq> None \<and> length (files w) = 1 \<and>
      new_sandbox w (n_sandboxes d) = Some sb \<and>
      create_file_from_storage sb (fst (hd (files w))) (snd (hd (files w))) False \<and>
      sandbox_execute sb
        (get_compilation_command w (the (snd (verify_source w))) (fst (hd (files w)))
           (executable_name w)))"

definition compiler_output_read :: "sandbox \<Rightarrow> bool" where
  "compiler_output_read sb =
     (get_file_to_string sb ''compiler_stdout.txt'' 1024 \<noteq> None \<and>
      get_file_to_string sb ''compiler_stderr.txt'' 1024 \<noteq> None)"

definition compiler_was_run :: "env \<Rightarrow> driver \<Rightarrow> sandbox \<Rightarrow> bool" where
  "compiler_was_run w d sb =
     (fst (verify_source w) \<and> snd (verify_source w) \<noteq> None \<and> length (files w) = 1 \<and>
      new_sandbox w (n_sandboxes d) = Some sb \<and>
      create_file_from_storage sb (fst (hd (files w))) (snd (hd (files w))) False \<and>
      sandbox_execute sb
        (get_compilation_command w (the (snd (verify_source w))) (fst (hd (files w)))
           (executable_name w)) \<and>
      get_file_to_string sb ''compiler_stdout.txt'' 1024 \<noteq> None \<and>
      get_file_to_string sb ''compiler_stderr.txt'' 1024 \<noteq> None)"

definition extracted_executable :: "env \<Rightarrow> sandbox \<Rightarrow> string option" where
  "extracted_executable w sb =
     get_file_to_storage sb (executable_name w)
       (''Executable '' @ executable_name w @ '' for submission '' @ show_int (submission_id w))"

definition compile_success_text :: "sandbox \<Rightarrow> string" where
  "compile_success_text sb =
     (let stdout = the (get_file_to_string sb ''compiler_stdout.txt'' 1024);
          stdout = (if py_strip whitespace stdout = [] then ''(empty)\<newline>'' else stdout);
          stderr = the (get_file_to_string sb ''compiler_stderr.txt'' 1024);
          stderr = (if py_strip whitespace stderr = [] then ''(empty)\<newline>'' else stderr)
      in compilation_report ''OK'' sb stdout stderr)"

definition candidate_was_run :: "env \<Rightarrow> nat \<Rightarrow> driver \<Rightarrow> sandbox \<Rightarrow> bool" where
  "candidate_was_run w i d sb =
     (new_sandbox w (n_sandboxes d) = Some sb \<and>
      (case executable_filename d of
         None \<Rightarrow> False
       | Some name \<Rightarrow>
           (case map_of (executables d) name of
              None \<Rightarrow> False
            | Some digest \<Rightarrow>
                create_file_from_storage sb name digest True \<and>
                sandbox_execute sb [relative_path sb name])) \<and>
      i < length (testcases w) \<and>
      create_file_from_storage sb ''input.txt'' (fst (testcases w ! i)) False)"

definition grader_was_run :: "env \<Rightarrow> nat \<Rightarrow> driver \<Rightarrow> sandbox \<Rightarrow> bool" where
  "grader_was_run w i d sb =
     (candidate_was_run w i d sb \<and> get_exit_status sb = EXIT_OK \<and>
      file_exists sb ''output.txt'' \<and>
      create_file_from_storage sb ''res.txt'' (snd (testcases w ! i)) False \<and>
      managers w \<noteq> [] \<and>
      create_file_from_storage sb (fst (hd (managers w))) (snd (hd (managers w))) True \<and>
      sandbox_execute sb
        [''./'' @ fst (hd (managers w)), ''input.txt'', ''res.txt'', ''output.txt''] \<and>
      codecs_open sb (py_path_join (path sb) ''manager_stdout.txt'') \<noteq> NoSuchFile \<and>
      codecs_open sb (py_path_join (path sb) ''manager_stderr.txt'') \<noteq> NoSuchFile)"

definition grader_output_unparseable :: "env \<Rightarrow> sandbox \<Rightarrow> bool" where
  "grader_output_unparseable w sb =
     (codecs_open sb (py_path_join (path sb) ''manager_stdout.txt'') = Undecodable \<or>
      codecs_open sb (py_path_join (path sb) ''manager_stderr.txt'') = Undecodable \<or>
      (case codecs_open sb (py_path_join (path sb) ''manager_stdout.txt'') of
         FirstLine line \<Rightarrow> py_float w (unicode_strip w line) = None
       | _ \<Rightarrow> False))"

subsection \<open>Sandbox operations of a call\<close>

text \<open>
  \<open>new_operations d d'\<close> are the journal entries added between two states,
  \<open>executions n\<close> counts the execute calls on sandbox \<open>n\<close> among them, and \<open>helper_failed\<close>
  marks an operation whose underlying call raised (a failed delete is swallowed by
  \<open>safe_delete_sandbox\<close> and does not count). \<open>runs_in_sandbox k m\<close>: the step \<open>m\<close>
  works on the current sandbox only, launches at most \<open>k\<close> commands in it, and raises
  \<open>JobException\<close> whenever one of its operations fails. \<open>sandboxed_call k m\<close>: the same for
  a whole call, which creates its own sandbox.
\<close>

definition is_execute :: "sandbox_op \<Rightarrow> bool" where
  "is_execute op = (case op of OpExecute command \<Rightarrow> True | _ \<Rightarrow> False)"

definition executions :: "nat \<Rightarrow> (nat \<times> sandbox_op \<times> bool) list \<Rightarrow> nat" where
  "executions n ops = length (filter (\<lambda>(k, op, ok). k = n \<and> is_execute op) ops)"

definition helper_failed :: "nat \<times> sandbox_op \<times> bool \<Rightarrow> bool" where
  "helper_failed e = (case e of (n, op, ok) \<Rightarrow> \<not> ok \<and> op \<noteq> OpDelete)"

definition new_operations :: "driver \<Rightarrow> driver \<Rightarrow> (nat \<times> sandbox_op \<times> bool) list" where
  "new_operations d d' = drop (length (journal d)) (journal d')"

definition runs_in_sandbox :: "nat \<Rightarrow> (driver \<Rightarrow> 'a result \<times> driver) \<Rightarrow> bool" where
  "runs_in_sandbox k m =
     (\<forall>d. \<exists>ops. journal (snd (m d)) = journal d @ ops \<and>
        map_option fst (sandbox (snd (m d))) = map_option fst (sandbox d) \<and>
        n_sandboxes (snd (m d)) = n_sandboxes d \<and>
        length (filter (\<lambda>e. is_execute (fst (snd e))) ops) \<le> k \<and>
        (\<forall>e \<in> set ops. map_option fst (sandbox d) = Some (fst e)) \<and>
        ((\<exists>e \<in> set ops. helper_failed e) \<longrightarrow> fst (m d) = Raise JobException))"

definition sandboxed_call :: "nat \<Rightarrow> (driver \<Rightarrow> 'a result \<times> driver) \<Rightarrow> bool" where
  "sandboxed_call k m =
     (\<forall>d. \<exists>ops. journal (snd (m d)) = journal d @ ops \<and>
        length (filter (\<lambda>e. is_execute (fst (snd e))) ops) \<le> k \<and>
        (\<forall>e \<in> set ops. is_execute (fst (snd e)) \<longrightarrow> fst e = n_sandboxes d) \<and>
        ((\<exists>e \<in> set ops. helper_failed e) \<longrightarrow> fst (m d) = Raise JobException))"

subsection \<open>Runs that differ in the exit code only\<close>

text \<open>
  \<open>forget_exit_codes w\<close> is the environment \<open>w\<close> with the exit code of every sandbox
  overwritten: two environments are identical except for the exit codes of the programs run
  in their sandboxes when they agree after that. \<open>same_run m' m\<close> relates a step run on the
  overwritten sandbox to the same step run on the original one: equal results, and final
  states that agree up to the exit code. \<open>exit_code_env\<close> is the sample with a program that
  ends with the given exit code.
\<close>

definition forget_exit_code :: "sandbox \<Rightarrow> sandbox" where
  "forget_exit_code sb = sb\<lparr>get_exit_code := 0\<rparr>"

definition forget_exit_codes :: "env \<Rightarrow> env" where
  "forget_exit_codes w =
     w\<lparr>new_sandbox := (\<lambda>k. map_option forget_exit_code (new_sandbox w k))\<rparr>"

definition forget_in_driver :: "driver \<Rightarrow> driver" where
  "forget_in_driver d =
     d\<lparr>sandbox := map_option (\<lambda>(n, sb). (n, forget_exit_code sb)) (sandbox d)\<rparr>"

definition same_run ::
  "(driver \<Rightarrow> 'a result \<times> driver) \<Rightarrow> (driver \<Rightarrow> 'a result \<times> driver) \<Rightarrow> bool" where
  "same_run m' m =
     (\<forall>d. m' (forget_in_driver d) = (fst (m d), forget_in_driver (snd (m d))))"

definition exit_code_env :: "int \<Rightarrow> env" where
  "exit_code_env code =
     demo_env\<lparr>new_sandbox := (\<lambda>k. Some (demo_sandbox\<lparr>get_exit_code := code\<rparr>))\<rparr>"

subsection \<open>Effect of a computation on the evaluations\<close>

text \<open>
  \<open>keeps_evaluations m\<close>: the step \<open>m\<close> leaves the submission's evaluations as they are.
  \<open>gives_verdict i V m\<close>: \<open>m\<close> either returns true after storing a text and an outcome
  satisfying \<open>V\<close> in evaluation \<open>i\<close>, or ends in any other way with the evaluations
  untouched; \<open>stores_verdict i V d rd\<close> says so of one run, from the state \<open>d\<close> to the
  result and state \<open>rd\<close>. \<open>verdict_of_sandbox i V m\<close> and \<open>verdict_of_created w i V m\<close> are
  the same with a condition \<open>V sb\<close> that depends on the sandbox the step works in: the one
  held in \<open>self.sandbox\<close>, and the one that the call creates first. \<open>preserves_sandbox m\<close>:
  the step leaves \<open>self.sandbox\<close> as it is. \<open>graded_outcome w sb v\<close> is the outcome that a
  successful run in the sandbox \<open>sb\<close> can store: with a grader, after a program that ended
  with status OK and left an output file, the number parsed from the first line of the
  grader's standard output; in every other case 0, or 1 on a task without grader.
\<close>

definition keeps_evaluations :: "(driver \<Rightarrow> 'a result \<times> driver) \<Rightarrow> bool" where
  "keeps_evaluations m = (\<forall>d. evaluations (snd (m d)) = evaluations d)"

definition gives_verdict ::
  "nat \<Rightarrow> (real \<Rightarrow> bool) \<Rightarrow> (driver \<Rightarrow> bool result \<times> driver) \<Rightarrow> bool" where
  "gives_verdict i V m =
     (\<forall>d. (fst (m d) = Return True \<and> i < length (evaluations d) \<and>
             (\<exists>t v. V v \<and> evaluations (snd (m d)) = (evaluations d)
                 [i := (evaluations d ! i)\<lparr>ev_text := Some t, ev_outcome := Some v\<rparr>]))
          \<or> (fst (m d) \<noteq> Return True \<and> evaluations (snd (m d)) = evaluations d))"

definition stores_verdict ::
  "nat \<Rightarrow> (real \<Rightarrow> bool) \<Rightarrow> driver \<Rightarrow> bool result \<times> driver \<Rightarrow> bool" where
  "stores_verdict i V d rd =
     ((fst rd = Return True \<and> i < length (evaluations d) \<and>
         (\<exists>t v. V v \<and> evaluations (snd rd) = (evaluations d)
             [i := (evaluations d ! i)\<lparr>ev_text := Some t, ev_outcome := Some v\<rparr>]))
      \<or> (fst rd \<noteq> Return True \<and> evaluations (snd rd) = evaluations d))"

definition preserves_sandbox :: "(driver \<Rightarrow> 'a result \<times> driver) \<Rightarrow> bool" where
  "preserves_sandbox m = (\<forall>d. sandbox (snd (m d)) = sandbox d)"

definition verdict_of_sandbox ::
  "nat \<Rightarrow> (sandbox \<Rightarrow> real \<Rightarrow> bool) \<Rightarrow> (driver \<Rightarrow> bool result \<times> driver) \<Rightarrow> bool" where
  "verdict_of_sandbox i V m =
     (\<forall>d n sb. sandbox d = Some (n, sb) \<longrightarrow> stores_verdict i (V sb) d (m d))"

definition verdict_of_created ::
  "env \<Rightarrow> nat \<Rightarrow> (sandbox \<Rightarrow> real \<Rightarrow> bool) \<Rightarrow> (driver \<Rightarrow> bool result \<times> driver) \<Rightarrow> bool" where
  "verdict_of_created w i V m =
     (\<forall>d. case new_sandbox w (n_sandboxes d) of
             Some sb \<Rightarrow> stores_verdict i (V sb) d (m d)
           | None \<Rightarrow> stores_verdict i (\<lambda>v. False) d (m d))"

definition graded_outcome :: "env \<Rightarrow> sandbox \<Rightarrow> real \<Rightarrow> bool" where
  "graded_outcome w sb v =
     (if managers w \<noteq> [] \<and> get_exit_status sb = EXIT_OK \<and> file_exists sb ''output.txt''
      then \<exists>line. codecs_open sb (py_path_join (path sb) ''manager_stdout.txt'') = FirstLine line \<and>
                  py_float w (unicode_strip w line) = Some v
      else v = 0 \<or> (managers w = [] \<and> v = 1))"

section \<open>Properties of the comparator\<close>

lemma readline_Nil: "readline [] = ([], [])"
  by (simp add: readline_def)

lemma readline_Cons:
  "readline (c # cs) =
     (if c = CHR 0x0A then ([c], cs) else (c # fst (readline cs), snd (readline cs)))"
proof (cases "c = CHR 0x0A")
  case True
  then show ?thesis by (simp add: readline_def)
next
  case False
  then show ?thesis
    by (cases "dropWhile (\<lambda>c. c \<noteq> CHR 0x0A) cs")
       (simp_all add: readline_def del: dropWhile_eq_Nil_conv)
qed

lemma readline_empty_iff: "fst (readline f) = [] \<longleftrightarrow> f = []"
  by (cases f) (simp_all add: readline_Nil readline_Cons)

lemma readline_rest_le: "length (snd (readline f)) \<le> length f"
  by (induction f) (simp_all add: readline_Nil readline_Cons)

lemma readline_shorter: "f \<noteq> [] \<Longrightarrow> length (snd (readline f)) < length f"
  using readline_rest_le by (cases f) (simp_all add: readline_Cons less_Suc_eq_le)

text \<open>
  C10: \<open>white_diff\<close> returns on every pair of finite inputs. Reading from an exhausted
  stream gives the empty line and leaves it exhausted, and reading from any other stream
  shortens it, so every turn of the loop that does not return makes the two streams together
  shorter, until both are exhausted and the loop returns true.
\<close>

theorem white_diff_terminates: "\<exists>verdict. white_diff out res = Some verdict"
proof (induction "length out + length res" arbitrary: out res rule: less_induct)
  case less
  show ?case
  proof (cases "out = [] \<and> res = []")
    case True
    then show ?thesis
      by (subst white_diff.simps) (auto simp: readline_Nil)
  next
    case False
    then have "length (snd (readline out)) + length (snd (readline res))
                 < length out + length res"
      using readline_shorter [of out] readline_shorter [of res]
      by (cases "out = []"; cases "res = []"; simp add: readline_Nil)
    then obtain verdict
      where "white_diff (snd (readline out)) (snd (readline res)) = Some verdict"
      using less by blast
    then show ?thesis
      by (subst white_diff.simps) (auto simp: Let_def)
  qed
qed

lemma py_replace_char: "py_replace [a] [b] s = map (\<lambda>c. if c = a then b else c) s"
proof (induction s)
  case Nil
  show ?case by (subst py_replace.simps) simp
next
  case (Cons c cs)
  show ?case by (subst py_replace.simps) (simp add: Cons)
qed

lemma canonicalize_tokens: "white_diff_canonicalize l = py_join '' '' (tokens l)"
proof -
  have replaced:
    "foldl (\<lambda>s c. py_replace [c] [hd WHITES] s) l (tl WHITES)
       = map (\<lambda>c. if c \<in> set WHITES then CHR '' '' else c) l"
    by (simp add: WHITES_def py_replace_char)
  have first: "hd WHITES = CHR '' ''"
    by (simp add: WHITES_def)
  show ?thesis
    unfolding white_diff_canonicalize_def tokens_def Let_def
    by (subst replaced) (simp only: first)
qed

lemma py_split_not_Nil: "py_split sep s \<noteq> []"
  by (induction s) (simp_all split: list.split)

lemma py_split_append: "py_split sep (a @ sep # b) = py_split sep a @ py_split sep b"
proof (induction a)
  case Nil
  show ?case by simp
next
  case (Cons c cs)
  then show ?case
    using py_split_not_Nil [of sep cs] by (cases "py_split sep cs") auto
qed

lemma tokens_white: "w \<in> set WHITES \<Longrightarrow> tokens (a @ w # b) = tokens a @ tokens b"
  by (simp add: tokens_def py_split_append)

lemma tokens_Nil: "tokens [] = []"
  by (simp add: tokens_def)

lemma tokens_gap: "at_gap a b \<Longrightarrow> tokens (a @ b) = tokens a @ tokens b"
proof -
  assume gap: "at_gap a b"
  consider "a = []" | "a \<noteq> []" "last a \<in> set WHITES" | "b = []" | "b \<noteq> []" "hd b \<in> set WHITES"
    using gap unfolding at_gap_def by blast
  then show ?thesis
  proof cases
    case 1
    then show ?thesis by (simp add: tokens_Nil)
  next
    case 2
    then obtain a' x where a: "a = a' @ [x]" and x: "x \<in> set WHITES"
      by (metis append_butlast_last_id)
    have "tokens (a @ b) = tokens (a' @ x # b)" by (simp add: a)
    also have "\<dots> = tokens a' @ tokens b" by (rule tokens_white [OF x])
    also have "tokens a' = tokens (a' @ x # [])" by (simp add: tokens_white [OF x] tokens_Nil)
    finally show ?thesis by (simp add: a)
  next
    case 3
    then show ?thesis by (simp add: tokens_Nil)
  next
    case 4
    then obtain x b' where b: "b = x # b'" and x: "x \<in> set WHITES"
      by (cases b) auto
    have "tokens ([] @ x # b') = tokens [] @ tokens b'" by (rule tokens_white [OF x])
    then have "tokens b = tokens b'" by (simp add: b tokens_Nil)
    then show ?thesis by (simp add: b tokens_white [OF x])
  qed
qed

lemma tokens_insert:
  "w \<in> set WHITES \<Longrightarrow> at_gap a b \<Longrightarrow> tokens (a @ w # b) = tokens (a @ b)"
  by (simp add: tokens_white tokens_gap)

lemma canonicalize_insert:
  "w \<in> set WHITES \<Longrightarrow> at_gap a b \<Longrightarrow>
     white_diff_canonicalize (a @ w # b) = white_diff_canonicalize (a @ b)"
  by (simp add: canonicalize_tokens tokens_insert)

lemma py_split_all_empty: "(\<forall>x\<in>set (py_split sep s). x = []) \<longleftrightarrow> set s \<subseteq> {sep}"
  by (induction s) (auto split: list.splits)

lemma tokens_empty_iff: "tokens l = [] \<longleftrightarrow> set l \<subseteq> set WHITES"
proof -
  have "tokens l = [] \<longleftrightarrow>
          (\<forall>x\<in>set (py_split (CHR '' '')
                     (map (\<lambda>c. if c \<in> set WHITES then CHR '' '' else c) l)). x = [])"
    by (simp add: tokens_def filter_empty_conv)
  also have "\<dots> \<longleftrightarrow> set (map (\<lambda>c. if c \<in> set WHITES then CHR '' '' else c) l) \<subseteq> {CHR '' ''}"
    by (rule py_split_all_empty)
  also have "\<dots> \<longleftrightarrow> set l \<subseteq> set WHITES"
    by (auto simp: WHITES_def split: if_splits)
  finally show ?thesis .
qed

lemma py_join_empty_iff: "\<forall>w\<in>set ws. w \<noteq> [] \<Longrightarrow> py_join sep ws = [] \<longleftrightarrow> ws = []"
  by (induction sep ws rule: py_join.induct) auto

lemma canonicalize_empty_iff: "white_diff_canonicalize l = [] \<longleftrightarrow> set l \<subseteq> set WHITES"
proof -
  have "\<forall>w\<in>set (tokens l). w \<noteq> []" by (simp add: tokens_def)
  then show ?thesis
    by (simp add: canonicalize_tokens py_join_empty_iff tokens_empty_iff)
qed

lemma dropWhile_all_iff: "(\<forall>x\<in>set (dropWhile P s). P x) \<longleftrightarrow> (\<forall>x\<in>set s. P x)"
  by (induction s) auto

lemma py_strip_empty_iff: "py_strip chars l = [] \<longleftrightarrow> set l \<subseteq> set chars"
proof -
  have "py_strip chars l = [] \<longleftrightarrow> (\<forall>x\<in>set (dropWhile (\<lambda>c. c \<in> set chars) l). x \<in> set chars)"
    by (simp add: py_strip_def)
  then show ?thesis by (auto simp: dropWhile_all_iff)
qed

lemma py_strip_Nil: "py_strip chars [] = []"
  by (simp add: py_strip_def)

lemma strip_iff_canonicalize:
  "py_strip WHITES l = [] \<longleftrightarrow> white_diff_canonicalize l = []"
  by (simp add: py_strip_empty_iff canonicalize_empty_iff)


lemma lines_of_readline:
  "f \<noteq> [] \<Longrightarrow> lines_of f = fst (readline f) # lines_of (snd (readline f))"
proof (induction f)
  case Nil
  then show ?case by simp
next
  case (Cons c cs)
  show ?case
  proof (cases "cs = []")
    case True
    then show ?thesis by (simp add: readline_Cons readline_Nil)
  next
    case False
    then show ?thesis using Cons.IH by (simp add: readline_Cons)
  qed
qed

lemma canonical_lines_Nil: "canonical_lines [] = []"
  by (simp add: canonical_lines_def)

lemma canonical_lines_readline:
  "f \<noteq> [] \<Longrightarrow>
     canonical_lines f =
       (if white_diff_canonicalize (fst (readline f)) = [] \<and> canonical_lines (snd (readline f)) = []
        then []
        else white_diff_canonicalize (fst (readline f)) # canonical_lines (snd (readline f)))"
  by (simp add: canonical_lines_def lines_of_readline)

lemma white_diff_canonical: "white_diff out res = Some (canonical_lines out = canonical_lines res)"
proof (induction "length out + length res" arbitrary: out res rule: less_induct)
  case less
  show ?case
  proof (cases "out = [] \<and> res = []")
    case True
    then show ?thesis
      by (subst white_diff.simps) (simp add: readline_Nil)
  next
    case False
    then have "length (snd (readline out)) + length (snd (readline res))
                 < length out + length res"
      using readline_shorter [of out] readline_shorter [of res]
      by (cases "out = []"; cases "res = []"; simp add: readline_Nil)
    then have rest: "white_diff (snd (readline out)) (snd (readline res))
        = Some (canonical_lines (snd (readline out)) = canonical_lines (snd (readline res)))"
      by (rule less)
    consider "out = []" "res \<noteq> []" | "out \<noteq> []" "res = []" | "out \<noteq> []" "res \<noteq> []"
      using False by blast
    then show ?thesis
    proof cases
      case 1
      then show ?thesis
        using rest
        by (subst white_diff.simps)
           (auto simp: Let_def readline_Nil readline_empty_iff canonical_lines_Nil
              canonical_lines_readline strip_iff_canonicalize py_strip_Nil)
    next
      case 2
      then show ?thesis
        using rest
        by (subst white_diff.simps)
           (auto simp: Let_def readline_Nil readline_empty_iff canonical_lines_Nil
              canonical_lines_readline strip_iff_canonicalize py_strip_Nil)
    next
      case 3
      then show ?thesis
        using rest
        by (subst white_diff.simps)
           (auto simp: Let_def readline_empty_iff canonical_lines_readline)
    qed
  qed
qed


lemma lines_of_Nil_iff: "lines_of f = [] \<longleftrightarrow> f = []"
  by (cases f) (simp_all split: list.split)

lemma lines_of_first: "lines_of ys = l # ls \<Longrightarrow> l \<noteq> [] \<and> hd l = hd ys"
  by (cases ys) (auto split: if_splits list.splits)

lemma lines_of_no_newline:
  "CHR 0x0A \<notin> set a \<Longrightarrow>
     lines_of (a @ r) =
       (case lines_of r of [] \<Rightarrow> (if a = [] then [] else [a]) | l # ls \<Rightarrow> (a @ l) # ls)"
  by (induction a) (auto split: list.splits)

lemma lines_of_newline:
  "CHR 0x0A \<notin> set a \<Longrightarrow> lines_of (a @ CHR 0x0A # r) = (a @ [CHR 0x0A]) # lines_of r"
  by (induction a) auto

lemma lines_of_append:
  "p = [] \<or> last p = CHR 0x0A \<Longrightarrow> lines_of (p @ r) = lines_of p @ lines_of r"
proof (induction p)
  case Nil
  show ?case by simp
next
  case (Cons c p)
  show ?case
  proof (cases "p = []")
    case True
    with Cons.prems show ?thesis by simp
  next
    case False
    with Cons.prems have "last p = CHR 0x0A" by simp
    then have ih: "lines_of (p @ r) = lines_of p @ lines_of r" by (simp add: Cons.IH)
    from False obtain l ls where "lines_of p = l # ls"
      by (cases "lines_of p") (simp_all add: lines_of_Nil_iff)
    with ih show ?thesis by simp
  qed
qed

lemma split_at_last_newline:
  "\<exists>p a. xs = p @ a \<and> (p = [] \<or> last p = CHR 0x0A) \<and> CHR 0x0A \<notin> set a"
proof (induction xs rule: rev_induct)
  case Nil
  show ?case by simp
next
  case (snoc x xs)
  then obtain p a where pa: "xs = p @ a" "p = [] \<or> last p = CHR 0x0A" "CHR 0x0A \<notin> set a"
    by blast
  show ?case
  proof (cases "x = CHR 0x0A")
    case True
    then have "xs @ [x] = (xs @ [x]) @ [] \<and> last (xs @ [x]) = CHR 0x0A" by simp
    then show ?thesis by (metis empty_iff list.set(1))
  next
    case False
    with pa have "xs @ [x] = p @ (a @ [x]) \<and> CHR 0x0A \<notin> set (a @ [x])" by simp
    with pa(2) show ?thesis by blast
  qed
qed

lemma trim_blank_append:
  "trim_blank B = trim_blank B' \<Longrightarrow> trim_blank (A @ B) = trim_blank (A @ B')"
  by (induction A) simp_all

lemma canonicalize_Nil: "white_diff_canonicalize [] = []"
  by (simp add: canonicalize_empty_iff)

lemma at_gap_Nil_right: "at_gap a []"
  by (simp add: at_gap_def)

lemma canonical_lines_insert:
  assumes c: "c = CHR '' '' \<or> c = CHR 0x09" and gap: "at_gap xs ys"
  shows "canonical_lines (xs @ c # ys) = canonical_lines (xs @ ys)"
proof -
  from c have white: "c \<in> set WHITES" and not_nl: "c \<noteq> CHR 0x0A"
    by (auto simp: WHITES_def)
  obtain p a where pa: "xs = p @ a" "p = [] \<or> last p = CHR 0x0A" "CHR 0x0A \<notin> set a"
    using split_at_last_newline by blast
  have line: "CHR 0x0A \<notin> set (a @ [c])"
    using pa(3) not_nl by simp
  have local: "trim_blank (map white_diff_canonicalize (lines_of ((a @ [c]) @ ys)))
             = trim_blank (map white_diff_canonicalize (lines_of (a @ ys)))"
  proof (cases "lines_of ys")
    case Nil
    have left: "lines_of ((a @ [c]) @ ys) = [a @ [c]]"
      using lines_of_no_newline [OF line, of ys] Nil by simp
    have right: "lines_of (a @ ys) = (if a = [] then [] else [a])"
      using lines_of_no_newline [OF pa(3), of ys] Nil by simp
    have "white_diff_canonicalize (a @ c # []) = white_diff_canonicalize (a @ [])"
      by (rule canonicalize_insert [OF white at_gap_Nil_right])
    then show ?thesis
      unfolding left right by (cases "a = []") (simp_all add: canonicalize_Nil)
  next
    case (Cons l ls)
    then have l: "l \<noteq> []" "hd l = hd ys" and ys: "ys \<noteq> []"
      using lines_of_first [of ys l ls] by auto
    have left: "lines_of ((a @ [c]) @ ys) = ((a @ [c]) @ l) # ls"
      using lines_of_no_newline [OF line, of ys] Cons by simp
    have right: "lines_of (a @ ys) = (a @ l) # ls"
      using lines_of_no_newline [OF pa(3), of ys] Cons by simp
    have "at_gap a l"
      using gap pa(1) l ys unfolding at_gap_def by (cases "a = []") auto
    then have "white_diff_canonicalize (a @ c # l) = white_diff_canonicalize (a @ l)"
      by (rule canonicalize_insert [OF white])
    then show ?thesis
      unfolding left right by simp
  qed
  have "canonical_lines (xs @ c # ys)
          = trim_blank (map white_diff_canonicalize (lines_of (p @ ((a @ [c]) @ ys))))"
    by (simp add: canonical_lines_def pa(1))
  also have "\<dots> = trim_blank (map white_diff_canonicalize (lines_of p)
                       @ map white_diff_canonicalize (lines_of ((a @ [c]) @ ys)))"
    by (simp only: lines_of_append [OF pa(2)] map_append)
  also have "\<dots> = trim_blank (map white_diff_canonicalize (lines_of p)
                       @ map white_diff_canonicalize (lines_of (a @ ys)))"
    by (rule trim_blank_append [OF local])
  also have "\<dots> = trim_blank (map white_diff_canonicalize (lines_of (p @ (a @ ys))))"
    by (simp only: lines_of_append [OF pa(2)] map_append)
  also have "\<dots> = canonical_lines (xs @ ys)"
    by (simp add: canonical_lines_def pa(1))
  finally show ?thesis .
qed

lemma canonical_lines_newline: "canonical_lines (t @ [CHR 0x0A]) = canonical_lines t"
proof -
  obtain p a where pa: "t = p @ a" "p = [] \<or> last p = CHR 0x0A" "CHR 0x0A \<notin> set a"
    using split_at_last_newline by blast
  have white: "CHR 0x0A \<in> set WHITES" by (simp add: WHITES_def)
  have "white_diff_canonicalize (a @ CHR 0x0A # []) = white_diff_canonicalize (a @ [])"
    by (rule canonicalize_insert [OF white at_gap_Nil_right])
  then have same: "white_diff_canonicalize (a @ [CHR 0x0A]) = white_diff_canonicalize a"
    by simp
  have left: "lines_of (a @ [CHR 0x0A]) = [a @ [CHR 0x0A]]"
    using lines_of_newline [OF pa(3), of "[]"] by simp
  have right: "lines_of (a @ []) = (if a = [] then [] else [a])"
    using lines_of_no_newline [OF pa(3), of "[]"] by simp
  have local: "trim_blank (map white_diff_canonicalize (lines_of (a @ [CHR 0x0A])))
             = trim_blank (map white_diff_canonicalize (lines_of (a @ [])))"
    unfolding left right using same by (cases "a = []") (simp_all add: canonicalize_Nil)
  have "canonical_lines (t @ [CHR 0x0A])
          = trim_blank (map white_diff_canonicalize (lines_of (p @ (a @ [CHR 0x0A]))))"
    by (simp add: canonical_lines_def pa(1))
  also have "\<dots> = trim_blank (map white_diff_canonicalize (lines_of p)
                       @ map white_diff_canonicalize (lines_of (a @ [CHR 0x0A])))"
    by (simp only: lines_of_append [OF pa(2)] map_append)
  also have "\<dots> = trim_blank (map white_diff_canonicalize (lines_of p)
                       @ map white_diff_canonicalize (lines_of (a @ [])))"
    by (rule trim_blank_append [OF local])
  also have "\<dots> = trim_blank (map white_diff_canonicalize (lines_of (p @ (a @ []))))"
    by (simp only: lines_of_append [OF pa(2)] map_append)
  also have "\<dots> = canonical_lines t"
    by (simp add: canonical_lines_def pa(1))
  finally show ?thesis .
qed

lemma ws_variant_canonical: "ws_variant s t \<Longrightarrow> canonical_lines s = canonical_lines t"
proof (induction rule: ws_variant.induct)
  case (same s)
  show ?case by simp
next
  case (inserted s xs ys c)
  then show ?case by (simp add: canonical_lines_insert)
next
  case (removed s xs c ys)
  then show ?case by (simp add: canonical_lines_insert)
next
  case (blank_line s t)
  then show ?case by (simp add: canonical_lines_newline)
qed

text \<open>
  C4 (as amended): \<open>white_diff\<close> judges a text and every variant of it equivalent, where
  a variant results from inserting or removing space or tab characters next to a whitespace
  character or at either end of the text, so that no token is split and no two tokens are
  joined, or from appending newlines. As stated, for insertions and removals anywhere, the
  claim fails: a space inserted into \<open>ab\<close> gives two tokens, and the comparator tells
  \<open>a b\<close> from \<open>ab\<close>.
\<close>

theorem white_diff_whitespace_invariance:
  "ws_variant s t \<Longrightarrow> white_diff s t = Some True"
  by (simp add: white_diff_canonical ws_variant_canonical)

theorem white_diff_whitespace_invariance_witness:
  "ws_variant ''a b\<newline>'' ''  a b \<newline>\<newline>'' \<and> white_diff ''a b\<newline>'' ''  a b \<newline>\<newline>'' = Some True"
proof -
  have 0: "ws_variant ''a b\<newline>'' ([] @ ''a b\<newline>'')"
    by (simp add: ws_variant.same)
  have 1: "ws_variant ''a b\<newline>'' ([] @ CHR '' '' # ''a b\<newline>'')"
    by (rule ws_variant.inserted [OF 0]) (simp_all add: at_gap_def WHITES_def)
  then have "ws_variant ''a b\<newline>'' ([] @ '' a b\<newline>'')" by simp
  then have 2: "ws_variant ''a b\<newline>'' ([] @ CHR '' '' # '' a b\<newline>'')"
    by (rule ws_variant.inserted) (simp_all add: at_gap_def WHITES_def)
  then have "ws_variant ''a b\<newline>'' (''  a b'' @ ''\<newline>'')" by simp
  then have 3: "ws_variant ''a b\<newline>'' (''  a b'' @ CHR '' '' # ''\<newline>'')"
    by (rule ws_variant.inserted) (simp_all add: at_gap_def WHITES_def)
  have 4: "ws_variant ''a b\<newline>'' ((''  a b'' @ CHR '' '' # ''\<newline>'') @ [CHR 0x0A])"
    by (rule ws_variant.blank_line [OF 3])
  then have v: "ws_variant ''a b\<newline>'' ''  a b \<newline>\<newline>''" by simp
  show ?thesis using v white_diff_whitespace_invariance [OF v] by simp
qed

theorem white_diff_split_token_counterexample:
  "white_diff ''ab'' (''a'' @ CHR '' '' # ''b'') = Some False"
  by code_simp

section \<open>Properties of the evaluate pipeline\<close>

lemma safe_delete_sandbox_evaluations [simp]:
  "evaluations (safe_delete_sandbox w d) = evaluations d"
  by (simp add: safe_delete_sandbox_def record_op_def split: option.split)

lemma keeps_evaluations_helpers:
  "keeps_evaluations (safe_create_sandbox w)"
  "keeps_evaluations (safe_create_file_from_storage w name digest executable)"
  "keeps_evaluations (safe_get_file_to_storage w name msg)"
  "keeps_evaluations (safe_get_file_to_string w name)"
  "keeps_evaluations (safe_get_file w name)"
  "keeps_evaluations (safe_sandbox_execute w command)"
  "keeps_evaluations the_sandbox"
  "keeps_evaluations (configure f)"
  "keeps_evaluations get_executable_filename"
  "keeps_evaluations (get_executable_digest name)"
  "keeps_evaluations (get_testcase w i)"
  "keeps_evaluations (call_white_diff out_file res_file)"
  by (simp_all add: keeps_evaluations_def safe_create_sandbox_def
        safe_create_file_from_storage_def safe_get_file_to_storage_def
        safe_get_file_to_string_def safe_get_file_def safe_sandbox_execute_def
        the_sandbox_def configure_def get_executable_filename_def get_executable_digest_def
        get_testcase_def call_white_diff_def record_op_def Let_def
        split: option.split prod.split)

lemma gives_verdict_bnd:
  "keeps_evaluations m \<Longrightarrow> (\<And>a. gives_verdict i V (f a)) \<Longrightarrow> gives_verdict i V (bnd m f)"
  unfolding keeps_evaluations_def gives_verdict_def bnd_def
proof (intro allI)
  fix d
  assume keeps: "\<forall>d. evaluations (snd (m d)) = evaluations d"
    and verdict: "\<And>a. \<forall>d. (fst (f a d) = Return True \<and> i < length (evaluations d) \<and>
             (\<exists>t v. V v \<and> evaluations (snd (f a d)) = (evaluations d)
                 [i := (evaluations d ! i)\<lparr>ev_text := Some t, ev_outcome := Some v\<rparr>]))
          \<or> (fst (f a d) \<noteq> Return True \<and> evaluations (snd (f a d)) = evaluations d)"
  obtain r d1 where md: "m d = (r, d1)" by (cases "m d")
  have d1: "evaluations d1 = evaluations d" using keeps [rule_format, of d] md by simp
  show "(fst (case m d of (Return a, d') \<Rightarrow> f a d' | (Raise e, d') \<Rightarrow> (Raise e, d')
                | (Hang, d') \<Rightarrow> (Hang, d')) = Return True \<and> i < length (evaluations d) \<and>
          (\<exists>t v. V v \<and> evaluations (snd (case m d of (Return a, d') \<Rightarrow> f a d'
                | (Raise e, d') \<Rightarrow> (Raise e, d') | (Hang, d') \<Rightarrow> (Hang, d'))) = (evaluations d)
                 [i := (evaluations d ! i)\<lparr>ev_text := Some t, ev_outcome := Some v\<rparr>]))
      \<or> (fst (case m d of (Return a, d') \<Rightarrow> f a d' | (Raise e, d') \<Rightarrow> (Raise e, d')
                | (Hang, d') \<Rightarrow> (Hang, d')) \<noteq> Return True \<and>
          evaluations (snd (case m d of (Return a, d') \<Rightarrow> f a d' | (Raise e, d') \<Rightarrow> (Raise e, d')
                | (Hang, d') \<Rightarrow> (Hang, d'))) = evaluations d)"
  proof (cases r)
    case (Return a)
    then show ?thesis using verdict [of a, rule_format, of d1] md d1 by simp
  next
    case (Raise e)
    then show ?thesis using md d1 by simp
  next
    case Hang
    then show ?thesis using md d1 by simp
  qed
qed

lemma gives_verdict_finish:
  "(success \<Longrightarrow> V v) \<Longrightarrow> gives_verdict i V (finish_single_execution w i success v t)"
  by (auto simp: gives_verdict_def finish_single_execution_def Let_def)

lemma gives_verdict_raise: "gives_verdict i V (py_raise e)"
  by (simp add: gives_verdict_def py_raise_def)

lemma gives_verdict_if:
  "(c \<Longrightarrow> gives_verdict i V a) \<Longrightarrow> (\<not> c \<Longrightarrow> gives_verdict i V b)
     \<Longrightarrow> gives_verdict i V (if c then a else b)"
  by simp

lemma gives_verdict_prod:
  "(\<And>a b. gives_verdict i V (f a b)) \<Longrightarrow> gives_verdict i V (case p of (a, b) \<Rightarrow> f a b)"
  by (cases p) simp

lemma gives_verdict_option:
  "(x = None \<Longrightarrow> gives_verdict i V a) \<Longrightarrow> (\<And>y. x = Some y \<Longrightarrow> gives_verdict i V (f y))
     \<Longrightarrow> gives_verdict i V (case x of None \<Rightarrow> a | Some y \<Rightarrow> f y)"
  by (cases x) simp_all

lemma gives_verdict_host_file:
  "gives_verdict i V a \<Longrightarrow> gives_verdict i V b
     \<Longrightarrow> (\<And>l. h = FirstLine l \<Longrightarrow> gives_verdict i V (f l))
     \<Longrightarrow> gives_verdict i V (case h of NoSuchFile \<Rightarrow> a | Undecodable \<Rightarrow> b | FirstLine l \<Rightarrow> f l)"
  by (cases h) simp_all

lemmas gives_verdict_rules =
  gives_verdict_bnd gives_verdict_finish gives_verdict_raise gives_verdict_if
  gives_verdict_prod gives_verdict_option gives_verdict_host_file keeps_evaluations_helpers

lemma gives_verdict_stores: "gives_verdict i V m \<longleftrightarrow> (\<forall>d. stores_verdict i V d (m d))"
  by (simp add: gives_verdict_def stores_verdict_def)

lemma preserves_sandbox_helpers:
  "preserves_sandbox get_executable_filename"
  "preserves_sandbox (get_executable_digest name)"
  "preserves_sandbox (get_testcase w i)"
  "preserves_sandbox (safe_create_file_from_storage w name digest executable)"
  by (simp_all add: preserves_sandbox_def get_executable_filename_def get_executable_digest_def
        get_testcase_def safe_create_file_from_storage_def safe_delete_sandbox_def record_op_def
        split: option.split prod.split)

lemma verdict_of_sandbox_bnd:
  assumes "keeps_evaluations m" and "preserves_sandbox m"
    and "\<And>a. verdict_of_sandbox i V (f a)"
  shows "verdict_of_sandbox i V (bnd m f)"
  unfolding verdict_of_sandbox_def
proof (intro allI impI)
  fix d :: driver and n sb
  assume held: "sandbox d = Some (n, sb)"
  obtain r d1 where md: "m d = (r, d1)" by (cases "m d")
  have same: "evaluations d1 = evaluations d"
    using assms(1) md by (auto simp: keeps_evaluations_def dest: spec [of _ d])
  have held1: "sandbox d1 = Some (n, sb)"
    using assms(2) md held by (auto simp: preserves_sandbox_def dest: spec [of _ d])
  show "stores_verdict i (V sb) d (bnd m f d)"
  proof (cases r)
    case (Return a)
    from assms(3) [of a] held1 have "stores_verdict i (V sb) d1 (f a d1)"
      by (simp add: verdict_of_sandbox_def)
    then show ?thesis using md Return same by (simp add: bnd_def stores_verdict_def)
  next
    case (Raise e)
    then show ?thesis using md same by (simp add: bnd_def stores_verdict_def)
  next
    case Hang
    then show ?thesis using md same by (simp add: bnd_def stores_verdict_def)
  qed
qed

lemma verdict_of_sandbox_the_sandbox:
  assumes "\<And>n sb. gives_verdict i (V sb) (f n sb)"
  shows "verdict_of_sandbox i V (bnd the_sandbox (\<lambda>(n, sb). f n sb))"
  using assms
  by (simp add: verdict_of_sandbox_def gives_verdict_stores bnd_def the_sandbox_def)

lemma verdict_of_sandbox_prod:
  "(\<And>a b. verdict_of_sandbox i V (f a b)) \<Longrightarrow> verdict_of_sandbox i V (case p of (a, b) \<Rightarrow> f a b)"
  by (cases p) simp

lemma verdict_of_created_bnd:
  assumes "verdict_of_sandbox i V m"
  shows "verdict_of_created w i V (bnd (safe_create_sandbox w) (\<lambda>_. m))"
  unfolding verdict_of_created_def
proof (intro allI)
  fix d
  show "case new_sandbox w (n_sandboxes d) of
          Some sb \<Rightarrow> stores_verdict i (V sb) d (bnd (safe_create_sandbox w) (\<lambda>_. m) d)
        | None \<Rightarrow> stores_verdict i (\<lambda>v. False) d (bnd (safe_create_sandbox w) (\<lambda>_. m) d)"
  proof (cases "new_sandbox w (n_sandboxes d)")
    case None
    then show ?thesis
      by (simp add: bnd_def safe_create_sandbox_def stores_verdict_def Let_def record_op_def)
  next
    case (Some sb)
    let ?d1 = "record_op (n_sandboxes d) OpCreate True
                 (d\<lparr>sandbox := Some (n_sandboxes d, sb), n_sandboxes := Suc (n_sandboxes d)\<rparr>)"
    have "stores_verdict i (V sb) ?d1 (m ?d1)"
      using assms by (simp add: verdict_of_sandbox_def record_op_def)
    then show ?thesis using Some
      by (simp add: bnd_def safe_create_sandbox_def stores_verdict_def Let_def record_op_def)
  qed
qed

lemmas verdict_of_sandbox_rules =
  verdict_of_created_bnd verdict_of_sandbox_the_sandbox verdict_of_sandbox_bnd
  verdict_of_sandbox_prod preserves_sandbox_helpers

lemma execute_single_graded: "verdict_of_created w i (graded_outcome w) (execute_single w i)"
  unfolding execute_single_def Let_def
  by (intro verdict_of_sandbox_rules gives_verdict_rules) (simp_all add: graded_outcome_def)

text \<open>
  C3 (as amended): an evaluation written by \<open>execute_single\<close>, that is by a call that returns
  true, in the sandbox \<open>sb\<close> that the call created. On the grader branch (the task has a
  grader, the program ended with status OK and left an output file) the stored outcome is
  the number that \<open>float\<close> parses from the stripped first line of the standard output the
  grader left in \<open>sb\<close>, stored as it is, with no check of its range. In every other case the
  stored outcome is 0.0 (a run that was stopped, produced no output file, or gave a wrong
  answer) or 1.0 from the whitespace comparator on a task without grader, and so lies in
  [0,1]. As stated, for both branches, the claim fails: a grader that prints 2.0 has 2.0
  stored as the outcome.
\<close>

theorem outcome_written:
  assumes "execute_single w i d = (Return True, d')"
  shows "\<exists>sb v. new_sandbox w (n_sandboxes d) = Some sb \<and>
           ev_outcome (evaluations d' ! i) = Some v \<and>
           (if managers w \<noteq> [] \<and> get_exit_status sb = EXIT_OK \<and> file_exists sb ''output.txt''
            then \<exists>line. codecs_open sb (py_path_join (path sb) ''manager_stdout.txt'')
                          = FirstLine line \<and>
                        py_float w (unicode_strip w line) = Some v
            else v = 0 \<or> (managers w = [] \<and> v = 1))"
  using execute_single_graded [of w i, unfolded verdict_of_created_def, rule_format, of d] assms
  by (cases "new_sandbox w (n_sandboxes d)")
     (auto simp: stores_verdict_def graded_outcome_def)

lemma graded_run: "fst (execute_single (grader_env ''0.5\<newline>'') 0 demo_ready) = Return True"
  by code_simp

lemma graded_parse:
  "py_float (grader_env ''0.5\<newline>'') (unicode_strip (grader_env ''0.5\<newline>'') ''0.5\<newline>'') = Some (1 / 2)"
  by code_simp

theorem outcome_written_witness:
  "execute_single (grader_env ''0.5\<newline>'') 0 demo_ready
      = (Return True, snd (execute_single (grader_env ''0.5\<newline>'') 0 demo_ready)) \<and>
   ev_outcome (evaluations (snd (execute_single (grader_env ''0.5\<newline>'') 0 demo_ready)) ! 0)
      = Some (1 / 2)"
proof -
  let ?w = "grader_env ''0.5\<newline>''"
  have run: "execute_single ?w 0 demo_ready = (Return True, snd (execute_single ?w 0 demo_ready))"
    using graded_run by (metis prod.collapse)
  from outcome_written [OF run] obtain sb v
    where created: "new_sandbox ?w (n_sandboxes demo_ready) = Some sb"
      and stored: "ev_outcome (evaluations (snd (execute_single ?w 0 demo_ready)) ! 0) = Some v"
      and branch: "if managers ?w \<noteq> [] \<and> get_exit_status sb = EXIT_OK \<and>
                      file_exists sb ''output.txt''
                   then \<exists>line. codecs_open sb (py_path_join (path sb) ''manager_stdout.txt'')
                                 = FirstLine line \<and>
                               py_float ?w (unicode_strip ?w line) = Some v
                   else v = 0 \<or> (managers ?w = [] \<and> v = 1)"
    by blast
  have sb: "sb = grader_sandbox ''0.5\<newline>''"
    using created by (simp add: grader_env_def)
  have graded: "managers ?w \<noteq> [] \<and> get_exit_status sb = EXIT_OK \<and> file_exists sb ''output.txt''"
    unfolding sb by (simp add: grader_env_def grader_sandbox_def demo_sandbox_def)
  have line: "codecs_open sb (py_path_join (path sb) ''manager_stdout.txt'') = FirstLine ''0.5\<newline>''"
    unfolding sb by (simp add: grader_sandbox_def demo_sandbox_def py_path_join_def)
  from branch graded line graded_parse have "v = 1 / 2"
    by auto
  with run stored show ?thesis by simp
qed

theorem outcome_out_of_range_counterexample:
  "fst (execute_single (grader_env ''2.0\<newline>'') 0 demo_ready) = Return True \<and>
   ev_outcome (evaluations (snd (execute_single (grader_env ''2.0\<newline>'') 0 demo_ready)) ! 0)
     = Some 2 \<and>
   \<not> (2 :: real) \<le> 1"
  by code_simp


lemma execute_single_step:
  "execute_single w i d = (r, d') \<Longrightarrow>
     (r = Return True \<and> i < length (evaluations d) \<and>
        (\<exists>t v. evaluations d' = (evaluations d)
           [i := (evaluations d ! i)\<lparr>ev_text := Some t, ev_outcome := Some v\<rparr>]))
     \<or> (r \<noteq> Return True \<and> evaluations d' = evaluations d)"
  using execute_single_graded [of w i, unfolded verdict_of_created_def, rule_format, of d]
  by (cases "new_sandbox w (n_sandboxes d)") (auto simp: stores_verdict_def)

lemma execute_loop_filled:
  "execute_loop w tests d = (Return True, d') \<Longrightarrow>
     length (evaluations d') = length (evaluations d) \<and>
     (\<forall>j < length (evaluations d).
        (j \<in> set tests \<or> (ev_outcome (evaluations d ! j) \<noteq> None \<and> ev_text (evaluations d ! j) \<noteq> None))
        \<longrightarrow> ev_outcome (evaluations d' ! j) \<noteq> None \<and> ev_text (evaluations d' ! j) \<noteq> None)"
proof (induction tests arbitrary: d)
  case Nil
  then show ?case by (simp add: finish_evaluation_def)
next
  case (Cons i rest)
  obtain r d1 where step: "execute_single w i d = (r, d1)"
    by (cases "execute_single w i d")
  from Cons.prems step have r: "r = Return True" and loop: "execute_loop w rest d1 = (Return True, d')"
    by (auto simp: finish_evaluation_def split: result.splits if_splits)
  from execute_single_step [OF step] r obtain t v
    where i: "i < length (evaluations d)"
      and d1: "evaluations d1 = (evaluations d)
                 [i := (evaluations d ! i)\<lparr>ev_text := Some t, ev_outcome := Some v\<rparr>]"
    by auto
  from Cons.IH [OF loop] have len: "length (evaluations d') = length (evaluations d1)"
    and filled: "\<And>j. j < length (evaluations d1) \<Longrightarrow>
        j \<in> set rest \<or> (ev_outcome (evaluations d1 ! j) \<noteq> None \<and> ev_text (evaluations d1 ! j) \<noteq> None)
        \<Longrightarrow> ev_outcome (evaluations d' ! j) \<noteq> None \<and> ev_text (evaluations d' ! j) \<noteq> None"
    by auto
  have same_length: "length (evaluations d') = length (evaluations d)"
    using len d1 by simp
  have all_filled: "\<forall>j < length (evaluations d).
        (j \<in> set (i # rest) \<or>
         (ev_outcome (evaluations d ! j) \<noteq> None \<and> ev_text (evaluations d ! j) \<noteq> None))
        \<longrightarrow> ev_outcome (evaluations d' ! j) \<noteq> None \<and> ev_text (evaluations d' ! j) \<noteq> None"
  proof (intro allI impI)
    fix j
    assume j: "j < length (evaluations d)"
      and *: "j \<in> set (i # rest) \<or>
              (ev_outcome (evaluations d ! j) \<noteq> None \<and> ev_text (evaluations d ! j) \<noteq> None)"
    have before: "j \<in> set rest \<or>
          (ev_outcome (evaluations d1 ! j) \<noteq> None \<and> ev_text (evaluations d1 ! j) \<noteq> None)"
      using * j d1 by (cases "j = i") auto
    have range: "j < length (evaluations d1)" using j d1 by simp
    show "ev_outcome (evaluations d' ! j) \<noteq> None \<and> ev_text (evaluations d' ! j) \<noteq> None"
      by (rule filled [OF range before])
  qed
  from same_length all_filled show ?case by blast
qed

lemma add_evaluations_length:
  "length (evaluations (foldl add_evaluation d ns)) = length (evaluations d) + length ns"
  by (induction ns arbitrary: d) (simp_all add: add_evaluation_def)

text \<open>
  C5 (as amended): for a submission with exactly one executable, after \<open>execute\<close> has
  returned true the number of evaluations of the submission is the larger of their number
  before the call and the number of testcases of the task (the call only ever adds
  records), hence equal to the number of testcases whenever the submission had at most that
  many evaluations before; and every evaluation with the index of a testcase holds an
  outcome and a text. As stated, for every submission, the claim fails: a submission that
  enters with two evaluations for a task with one testcase leaves with two.
\<close>

theorem evaluation_count:
  "length (executables d) = 1 \<Longrightarrow> execute w d = (Return True, d') \<Longrightarrow>
     length (evaluations d') = max (length (evaluations d)) (length (testcases w)) \<and>
     (\<forall>i < length (testcases w).
        ev_outcome (evaluations d' ! i) \<noteq> None \<and> ev_text (evaluations d' ! i) \<noteq> None)"
proof -
  assume one: "length (executables d) = 1" and run: "execute w d = (Return True, d')"
  define d2 where "d2 = foldl add_evaluation (d\<lparr>executable_filename := Some (fst (hd (executables d)))\<rparr>)
                          [length (evaluations d) ..< length (testcases w)]"
  have len2: "length (evaluations d2) = max (length (evaluations d)) (length (testcases w))"
    by (simp add: d2_def add_evaluations_length)
  have loop: "execute_loop w [0 ..< length (testcases w)] d2 = (Return True, d')"
    using run one by (simp add: execute_def d2_def Let_def)
  from execute_loop_filled [OF loop] len2 show ?thesis by auto
qed

lemma demo_execute: "fst (execute demo_env demo_ready) = Return True"
  by code_simp

theorem evaluation_count_witness:
  "length (executables demo_ready) = 1 \<and>
   execute demo_env demo_ready = (Return True, snd (execute demo_env demo_ready)) \<and>
   length (evaluations (snd (execute demo_env demo_ready))) = 1"
proof -
  have one: "length (executables demo_ready) = 1"
    by (simp add: demo_ready_def)
  have run: "execute demo_env demo_ready = (Return True, snd (execute demo_env demo_ready))"
    using demo_execute by (metis prod.collapse)
  from evaluation_count [OF one run] one run show ?thesis
    by (simp add: demo_ready_def demo_env_def demo_driver_def)
qed

theorem evaluation_count_counterexample:
  "length (executables demo_stale) = 1 \<and>
   fst (execute demo_env demo_stale) = Return True \<and>
   length (evaluations (snd (execute demo_env demo_stale))) = 2 \<and>
   length (testcases demo_env) = 1"
  by code_simp

section \<open>Paths, sandbox operations and failures\<close>

lemmas step_defs =
  bnd_def record_op_def the_sandbox_def configure_def safe_delete_sandbox_def
  safe_create_sandbox_def safe_create_file_from_storage_def safe_get_file_to_storage_def
  safe_get_file_to_string_def safe_get_file_def safe_sandbox_execute_def
  finish_compilation_def finish_single_execution_def
  get_executable_filename_def get_executable_digest_def get_testcase_def call_white_diff_def
  add_executable_def py_raise_def

lemma compile_sandbox_error:
  assumes "compiler_was_launched w d sb" and "get_exit_status sb = EXIT_SANDBOX_ERROR"
  shows "fst (compile w d) =
           (if compiler_output_read sb then Return False else Raise JobException)"
  using assms
  unfolding compile_def compiler_was_launched_def compiler_output_read_def executable_name_def
  by (cases "verify_source w") (auto simp: step_defs Let_def split: option.splits)

lemma execute_single_sandbox_error:
  assumes "candidate_was_run w i d sb" and "get_exit_status sb = EXIT_SANDBOX_ERROR"
  shows "fst (execute_single w i d) = Return False"
  using assms
  unfolding execute_single_def candidate_was_run_def
  by (cases "testcases w ! i")
     (auto simp: step_defs Let_def split: option.splits)

lemma execute_single_unparseable:
  assumes "grader_was_run w i d sb" and "grader_output_unparseable w sb"
  shows "fst (execute_single w i d) = Return False"
  using assms
  unfolding execute_single_def grader_was_run_def candidate_was_run_def
    grader_output_unparseable_def
  by (cases "testcases w ! i")
     (auto simp: step_defs Let_def split: option.splits host_file.splits)

lemmas journal_defs =
  record_op_def the_sandbox_def configure_def safe_delete_sandbox_def
  safe_create_file_from_storage_def safe_get_file_to_storage_def
  safe_get_file_to_string_def safe_get_file_def safe_sandbox_execute_def
  finish_compilation_def finish_single_execution_def
  get_executable_filename_def get_executable_digest_def get_testcase_def call_white_diff_def
  add_executable_def py_raise_def is_execute_def helper_failed_def

lemma runs_in_sandbox_helpers:
  "runs_in_sandbox 0 (safe_create_file_from_storage w name digest executable)"
  "runs_in_sandbox 0 (safe_get_file_to_storage w name msg)"
  "runs_in_sandbox 0 (safe_get_file_to_string w name)"
  "runs_in_sandbox 0 (safe_get_file w name)"
  "runs_in_sandbox 0 the_sandbox"
  "runs_in_sandbox 0 (configure f)"
  "runs_in_sandbox 0 get_executable_filename"
  "runs_in_sandbox 0 (get_executable_digest name)"
  "runs_in_sandbox 0 (get_testcase w i)"
  "runs_in_sandbox 0 (call_white_diff out_file res_file)"
  "runs_in_sandbox 0 (add_executable digest name)"
  by (auto simp: runs_in_sandbox_def journal_defs split: option.split prod.split)

lemma runs_in_sandbox_leaves:
  "runs_in_sandbox k (py_raise e)"
  "runs_in_sandbox k (finish_compilation w success compilation_success text)"
  "runs_in_sandbox k (finish_single_execution w i success outcome text)"
  by (auto simp: runs_in_sandbox_def journal_defs Let_def split: option.split prod.split)

lemma runs_in_sandbox_execute: "runs_in_sandbox (Suc 0) (safe_sandbox_execute w command)"
  by (auto simp: runs_in_sandbox_def journal_defs split: option.split prod.split)


lemma runs_in_sandbox_bnd_add:
  assumes m: "runs_in_sandbox j m" and f: "\<And>a. runs_in_sandbox k (f a)"
  shows "runs_in_sandbox (j + k) (bnd m f)"
  unfolding runs_in_sandbox_def
proof (intro allI)
  fix d
  obtain r d1 where md: "m d = (r, d1)" by (cases "m d")
  from m [unfolded runs_in_sandbox_def, rule_format, of d] md obtain ops1 where
      j1: "journal d1 = journal d @ ops1"
    and s1: "map_option fst (sandbox d1) = map_option fst (sandbox d)"
    and n1: "n_sandboxes d1 = n_sandboxes d"
    and c1: "length (filter (\<lambda>e. is_execute (fst (snd e))) ops1) \<le> j"
    and o1: "\<forall>e \<in> set ops1. map_option fst (sandbox d) = Some (fst e)"
    and f1: "(\<exists>e \<in> set ops1. helper_failed e) \<longrightarrow> r = Raise JobException"
    by auto
  let ?goal = "\<lambda>ops. journal (snd (bnd m f d)) = journal d @ ops \<and>
        map_option fst (sandbox (snd (bnd m f d))) = map_option fst (sandbox d) \<and>
        n_sandboxes (snd (bnd m f d)) = n_sandboxes d \<and>
        length (filter (\<lambda>e. is_execute (fst (snd e))) ops) \<le> j + k \<and>
        (\<forall>e \<in> set ops. map_option fst (sandbox d) = Some (fst e)) \<and>
        ((\<exists>e \<in> set ops. helper_failed e) \<longrightarrow> fst (bnd m f d) = Raise JobException)"
  show "\<exists>ops. ?goal ops"
  proof (cases r)
    case (Return a)
    obtain r2 d2 where fd: "f a d1 = (r2, d2)" by (cases "f a d1")
    from f [of a, unfolded runs_in_sandbox_def, rule_format, of d1] fd obtain ops2 where
        j2: "journal d2 = journal d1 @ ops2"
      and s2: "map_option fst (sandbox d2) = map_option fst (sandbox d1)"
      and n2: "n_sandboxes d2 = n_sandboxes d1"
      and c2: "length (filter (\<lambda>e. is_execute (fst (snd e))) ops2) \<le> k"
      and o2: "\<forall>e \<in> set ops2. map_option fst (sandbox d1) = Some (fst e)"
      and f2: "(\<exists>e \<in> set ops2. helper_failed e) \<longrightarrow> r2 = Raise JobException"
      by auto
    have run: "bnd m f d = (r2, d2)" using md Return fd by (simp add: bnd_def)
    have "?goal (ops1 @ ops2)"
      using j1 s1 n1 c1 o1 f1 j2 s2 n2 c2 o2 f2 Return unfolding run by auto
    then show ?thesis ..
  next
    case (Raise e)
    have run: "bnd m f d = (Raise e, d1)" using md Raise by (simp add: bnd_def)
    have "?goal ops1"
      using j1 s1 n1 c1 o1 f1 Raise unfolding run by auto
    then show ?thesis ..
  next
    case Hang
    have run: "bnd m f d = (Hang, d1)" using md Hang by (simp add: bnd_def)
    have "?goal ops1"
      using j1 s1 n1 c1 o1 f1 Hang unfolding run by auto
    then show ?thesis ..
  qed
qed

lemma runs_in_sandbox_bnd:
  "runs_in_sandbox 0 m \<Longrightarrow> (\<And>a. runs_in_sandbox k (f a)) \<Longrightarrow> runs_in_sandbox k (bnd m f)"
  using runs_in_sandbox_bnd_add [of 0 m k f] by simp

lemma runs_in_sandbox_bnd_execute:
  "(\<And>a. runs_in_sandbox k (f a))
     \<Longrightarrow> runs_in_sandbox (Suc k) (bnd (safe_sandbox_execute w command) f)"
  using runs_in_sandbox_bnd_add [OF runs_in_sandbox_execute, of k f w command] by simp

lemma runs_in_sandbox_if:
  "(c \<Longrightarrow> runs_in_sandbox k a) \<Longrightarrow> (\<not> c \<Longrightarrow> runs_in_sandbox k b)
     \<Longrightarrow> runs_in_sandbox k (if c then a else b)"
  by simp

lemma runs_in_sandbox_prod:
  "(\<And>a b. runs_in_sandbox k (f a b)) \<Longrightarrow> runs_in_sandbox k (case p of (a, b) \<Rightarrow> f a b)"
  by (cases p) simp

lemma runs_in_sandbox_option:
  "runs_in_sandbox k a \<Longrightarrow> (\<And>y. runs_in_sandbox k (f y))
     \<Longrightarrow> runs_in_sandbox k (case x of None \<Rightarrow> a | Some y \<Rightarrow> f y)"
  by (cases x) simp_all

lemma runs_in_sandbox_host_file:
  "runs_in_sandbox k a \<Longrightarrow> runs_in_sandbox k b \<Longrightarrow> (\<And>l. runs_in_sandbox k (f l))
     \<Longrightarrow> runs_in_sandbox k (case h of NoSuchFile \<Rightarrow> a | Undecodable \<Rightarrow> b | FirstLine l \<Rightarrow> f l)"
  by (cases h) simp_all

lemmas runs_in_sandbox_rules =
  runs_in_sandbox_bnd_execute runs_in_sandbox_bnd runs_in_sandbox_if runs_in_sandbox_prod
  runs_in_sandbox_option runs_in_sandbox_host_file runs_in_sandbox_helpers
  runs_in_sandbox_leaves

lemma sandboxed_call_create:
  assumes f: "\<And>a. runs_in_sandbox k (f a)"
  shows "sandboxed_call k (bnd (safe_create_sandbox w) f)"
  unfolding sandboxed_call_def
proof (intro allI)
  fix d
  let ?goal = "\<lambda>ops. journal (snd (bnd (safe_create_sandbox w) f d)) = journal d @ ops \<and>
        length (filter (\<lambda>e. is_execute (fst (snd e))) ops) \<le> k \<and>
        (\<forall>e \<in> set ops. is_execute (fst (snd e)) \<longrightarrow> fst e = n_sandboxes d) \<and>
        ((\<exists>e \<in> set ops. helper_failed e) \<longrightarrow>
           fst (bnd (safe_create_sandbox w) f d) = Raise JobException)"
  show "\<exists>ops. ?goal ops"
  proof (cases "new_sandbox w (n_sandboxes d)")
    case None
    then have "?goal (drop (length (journal d))
                       (journal (snd (bnd (safe_create_sandbox w) f d))))"
      by (auto simp: bnd_def safe_create_sandbox_def journal_defs Let_def
            split: option.split prod.split)
    then show ?thesis ..
  next
    case (Some sb)
    define d1 where "d1 = record_op (n_sandboxes d) OpCreate True
                            (d\<lparr>sandbox := Some (n_sandboxes d, sb),
                               n_sandboxes := Suc (n_sandboxes d)\<rparr>)"
    have run: "bnd (safe_create_sandbox w) f d = f () d1"
      using Some by (simp add: bnd_def safe_create_sandbox_def d1_def Let_def)
    have j1: "journal d1 = journal d @ [(n_sandboxes d, OpCreate, True)]"
      and s1: "map_option fst (sandbox d1) = Some (n_sandboxes d)"
      by (simp_all add: d1_def record_op_def)
    from f [of "()", unfolded runs_in_sandbox_def, rule_format, of d1] obtain ops2 where
        j2: "journal (snd (f () d1)) = journal d1 @ ops2"
      and c2: "length (filter (\<lambda>e. is_execute (fst (snd e))) ops2) \<le> k"
      and o2: "\<forall>e \<in> set ops2. map_option fst (sandbox d1) = Some (fst e)"
      and f2: "(\<exists>e \<in> set ops2. helper_failed e) \<longrightarrow> fst (f () d1) = Raise JobException"
      by auto
    have "?goal ((n_sandboxes d, OpCreate, True) # ops2)"
      using j1 s1 j2 c2 o2 f2 unfolding run
      by (auto simp: is_execute_def helper_failed_def)
    then show ?thesis ..
  qed
qed

lemma sandboxed_call_finish:
  "sandboxed_call k (finish_compilation w success compilation_success text)"
  by (auto simp: sandboxed_call_def journal_defs Let_def split: option.split prod.split)

lemma sandboxed_call_if:
  "(c \<Longrightarrow> sandboxed_call k a) \<Longrightarrow> (\<not> c \<Longrightarrow> sandboxed_call k b)
     \<Longrightarrow> sandboxed_call k (if c then a else b)"
  by simp

lemma sandboxed_call_prod:
  "(\<And>a b. sandboxed_call k (f a b)) \<Longrightarrow> sandboxed_call k (case p of (a, b) \<Rightarrow> f a b)"
  by (cases p) simp

lemmas sandboxed_call_rules =
  sandboxed_call_create sandboxed_call_finish sandboxed_call_if sandboxed_call_prod
  runs_in_sandbox_rules

lemma compile_sandboxed: "sandboxed_call (Suc 0) (compile w)"
  unfolding compile_def Let_def
  by (intro sandboxed_call_rules)

lemma execute_single_sandboxed: "sandboxed_call (Suc (Suc 0)) (execute_single w i)"
  unfolding execute_single_def Let_def
  by (intro sandboxed_call_rules)

lemma sandboxed_call_facts:
  assumes "sandboxed_call k m"
  shows "executions n (new_operations d (snd (m d))) \<le> k"
    and "executions n (new_operations d (snd (m d))) = 0 \<or> n = n_sandboxes d"
    and "(\<exists>e \<in> set (new_operations d (snd (m d))). helper_failed e)
           \<Longrightarrow> fst (m d) = Raise JobException"
proof -
  from assms [unfolded sandboxed_call_def, rule_format, of d] obtain ops where
      j: "journal (snd (m d)) = journal d @ ops"
    and c: "length (filter (\<lambda>e. is_execute (fst (snd e))) ops) \<le> k"
    and o: "\<forall>e \<in> set ops. is_execute (fst (snd e)) \<longrightarrow> fst e = n_sandboxes d"
    and f: "(\<exists>e \<in> set ops. helper_failed e) \<longrightarrow> fst (m d) = Raise JobException"
    by auto
  have ops: "new_operations d (snd (m d)) = ops"
    by (simp add: new_operations_def j)
  have eq: "filter (\<lambda>(k, op, ok). k = n \<and> is_execute op) ops
          = filter (\<lambda>e. fst e = n) (filter (\<lambda>e. is_execute (fst (snd e))) ops)"
    by (induction ops) auto
  have le: "executions n ops \<le> length (filter (\<lambda>e. is_execute (fst (snd e))) ops)"
    unfolding executions_def eq by (rule length_filter_le)
  show "executions n (new_operations d (snd (m d))) \<le> k"
    using le c by (simp add: ops)
  show "executions n (new_operations d (snd (m d))) = 0 \<or> n = n_sandboxes d"
    using o by (auto simp: ops executions_def filter_empty_conv)
  show "(\<exists>e \<in> set (new_operations d (snd (m d))). helper_failed e)
           \<Longrightarrow> fst (m d) = Raise JobException"
    using f by (simp add: ops)
qed

lemma execute_single_sandboxed_no_grader:
  "managers w = [] \<Longrightarrow> sandboxed_call (Suc 0) (execute_single w i)"
  unfolding execute_single_def Let_def
  by (intro sandboxed_call_rules) simp_all

text \<open>
  C6 (as amended): during \<open>compile\<close>, and during \<open>execute_single\<close> on a task without
  grader, at most one command is launched in any sandbox; during \<open>execute_single\<close> on a
  task with a grader at most two are, the program and then the grader, both in the sandbox
  that the call created; and no call launches a command in a sandbox created earlier. As
  stated, with at most one execute call for every sandbox, the claim fails: on a task with a
  grader the sandbox that ran the program also runs the grader before it is deleted.
\<close>

theorem sandbox_executions:
  "executions n (new_operations d (snd (compile w d))) \<le> 1 \<and>
   executions n (new_operations d (snd (execute_single w i d)))
     \<le> (if managers w = [] then 1 else 2) \<and>
   (executions n (new_operations d (snd (compile w d))) = 0 \<or> n = n_sandboxes d) \<and>
   (executions n (new_operations d (snd (execute_single w i d))) = 0 \<or> n = n_sandboxes d)"
proof -
  have single: "executions n (new_operations d (snd (execute_single w i d)))
          \<le> (if managers w = [] then 1 else 2)"
  proof (cases "managers w = []")
    case True
    then have "sandboxed_call (Suc 0) (execute_single w i)"
      by (rule execute_single_sandboxed_no_grader)
    from sandboxed_call_facts(1) [OF this] True show ?thesis by simp
  next
    case False
    from sandboxed_call_facts(1) [OF execute_single_sandboxed] False show ?thesis
      by (simp add: numeral_2_eq_2)
  qed
  have compile: "executions n (new_operations d (snd (compile w d))) \<le> 1"
    using sandboxed_call_facts(1) [OF compile_sandboxed] by simp
  have own: "executions n (new_operations d (snd (compile w d))) = 0 \<or> n = n_sandboxes d"
    "executions n (new_operations d (snd (execute_single w i d))) = 0 \<or> n = n_sandboxes d"
    by (rule sandboxed_call_facts(2) [OF compile_sandboxed],
        rule sandboxed_call_facts(2) [OF execute_single_sandboxed])
  from compile single own show ?thesis by blast
qed

theorem sandbox_executions_witness:
  "executions 0 (new_operations demo_driver (snd (compile demo_env demo_driver))) = 1 \<and>
   executions 0 (new_operations demo_ready (snd (execute_single demo_env 0 demo_ready))) = 1 \<and>
   executions 1 (new_operations demo_ready (snd (execute_single demo_env 0 demo_ready))) = 0"
proof -
  have a: "1 \<le> executions 0 (new_operations demo_driver (snd (compile demo_env demo_driver)))"
    by code_simp
  have b: "1 \<le> executions 0
                  (new_operations demo_ready (snd (execute_single demo_env 0 demo_ready)))"
    by code_simp
  have c: "managers demo_env = []" "n_sandboxes demo_ready = 0"
    by (simp_all add: demo_env_def demo_ready_def demo_driver_def)
  from sandbox_executions [where n = 0 and d = demo_driver and w = demo_env]
    sandbox_executions [where n = 0 and d = demo_ready and w = demo_env and i = 0]
    sandbox_executions [where n = 1 and d = demo_ready and w = demo_env and i = 0] a b c
  show ?thesis by simp
qed

theorem grader_reuses_sandbox_counterexample:
  "new_operations demo_ready (snd (execute_single (grader_env ''0.5\<newline>'') 0 demo_ready)) =
     [(0, OpCreate, True), (0, OpCreateFile ''sum'', True),
      (0, OpCreateFile ''input.txt'', True), (0, OpExecute [''./sum''], True),
      (0, OpCreateFile ''res.txt'', True), (0, OpCreateFile ''grader'', True),
      (0, OpExecute [''./grader'', ''input.txt'', ''res.txt'', ''output.txt''], True),
      (0, OpDelete, True)] \<and>
   executions 0
     (new_operations demo_ready (snd (execute_single (grader_env ''0.5\<newline>'') 0 demo_ready))) = 2"
  by code_simp


lemma demo_executable_name: "executable_name demo_env = ''sum''"
  by code_simp

lemma demo_compiler_was_run:
  assumes "new_sandbox w 0 = Some sb"
    and "verify_source w = verify_source demo_env" and "files w = files demo_env"
    and "get_compilation_command w = get_compilation_command demo_env"
    and "create_file_from_storage sb = create_file_from_storage demo_sandbox"
    and "sandbox_execute sb = sandbox_execute demo_sandbox"
    and "get_file_to_string sb ''compiler_stdout.txt'' 1024 \<noteq> None"
    and "get_file_to_string sb ''compiler_stderr.txt'' 1024 \<noteq> None"
  shows "compiler_was_run w demo_driver sb"
  using assms
  by (simp add: compiler_was_run_def executable_name_def demo_env_def demo_sandbox_def
        demo_driver_def)

text \<open>
  C1 (as amended): for every run of \<open>compile\<close> in which the compiler was run, the sandbox
  reports status OK and exit code 0, the executable is extracted into the store and the
  compilation text decodes, the pipeline stages exactly one new executable record for the
  submission in the session, sets the compilation outcome to \<open>ok\<close> and returns true. As
  stated, for every run with status OK and exit code 0, the claim fails: when the extraction
  raises an I/O error, \<open>safe_get_file_to_storage\<close> raises \<open>JobException\<close> and nothing is
  staged.
\<close>

theorem compile_ok_stages_executable:
  assumes "compiler_was_run w d sb"
    and "get_exit_status sb = EXIT_OK" and "get_exit_code sb = 0"
    and "extracted_executable w sb = Some digest"
    and "utf8_decode w (compile_success_text sb) = Some text"
  shows "fst (compile w d) = Return True \<and>
         session (snd (compile w d)) = session d @ [Executable digest (executable_name w)] \<and>
         compilation_outcome (snd (compile w d)) = Some ''ok'' \<and>
         compilation_text (snd (compile w d)) = Some text"
  using assms
  unfolding compile_def compiler_was_run_def extracted_executable_def compile_success_text_def
    executable_name_def
  by (cases "verify_source w") (auto simp: step_defs Let_def)

theorem compile_ok_stages_executable_witness:
  "compiler_was_run demo_env demo_driver demo_sandbox \<and>
   get_exit_status demo_sandbox = EXIT_OK \<and> get_exit_code demo_sandbox = 0 \<and>
   fst (compile demo_env demo_driver) = Return True \<and>
   session (snd (compile demo_env demo_driver)) = [Executable ''d-exe'' ''sum''] \<and>
   compilation_outcome (snd (compile demo_env demo_driver)) = Some ''ok''"
proof -
  have run: "compiler_was_run demo_env demo_driver demo_sandbox"
    by (rule demo_compiler_was_run) (simp_all add: demo_env_def demo_sandbox_def)
  have status: "get_exit_status demo_sandbox = EXIT_OK" "get_exit_code demo_sandbox = 0"
    by (simp_all add: demo_sandbox_def)
  have stored: "extracted_executable demo_env demo_sandbox = Some ''d-exe''"
    by code_simp
  have decoded: "utf8_decode demo_env (compile_success_text demo_sandbox)
                   = Some (compile_success_text demo_sandbox)"
    by code_simp
  from compile_ok_stages_executable [OF run status stored decoded] run status demo_executable_name
  show ?thesis by (simp add: demo_driver_def)
qed

theorem compile_extraction_fails_counterexample:
  "get_exit_status no_store_sandbox = EXIT_OK \<and> get_exit_code no_store_sandbox = 0 \<and>
   fst (compile no_store_env demo_driver) = Raise JobException \<and>
   session (snd (compile no_store_env demo_driver)) = [] \<and>
   compilation_outcome (snd (compile no_store_env demo_driver)) = None"
  by code_simp

text \<open>
  C7: a compilation text that does not decode. The handler of the decoding error calls the
  attribute \<open>compilation_text\<close> instead of assigning the fixed message to it, so on the
  success branch of \<open>compile\<close> such a run ends in \<open>TypeError\<close>, with the compilation text
  left as it was, instead of returning true.
\<close>

theorem compile_undecodable_text:
  assumes "compiler_was_run w d sb"
    and "get_exit_status sb = EXIT_OK" and "get_exit_code sb = 0"
    and "extracted_executable w sb = Some digest"
    and "utf8_decode w (compile_success_text sb) = None"
  shows "fst (compile w d) = Raise TypeError \<and>
         compilation_text (snd (compile w d)) = compilation_text d"
  using assms
  unfolding compile_def compiler_was_run_def extracted_executable_def compile_success_text_def
    executable_name_def
  by (cases "verify_source w") (auto simp: step_defs Let_def)

theorem compile_undecodable_text_witness:
  "compiler_was_run latin1_env demo_driver latin1_sandbox \<and>
   utf8_decode latin1_env (compile_success_text latin1_sandbox) = None \<and>
   fst (compile latin1_env demo_driver) = Raise TypeError \<and>
   compilation_text (snd (compile latin1_env demo_driver)) = None"
proof -
  have run: "compiler_was_run latin1_env demo_driver latin1_sandbox"
    by (rule demo_compiler_was_run)
       (simp_all add: latin1_env_def latin1_sandbox_def demo_env_def demo_sandbox_def)
  have status: "get_exit_status latin1_sandbox = EXIT_OK" "get_exit_code latin1_sandbox = 0"
    by (simp_all add: latin1_sandbox_def demo_sandbox_def)
  have stored: "extracted_executable latin1_env latin1_sandbox = Some ''d-exe''"
    by code_simp
  have undecodable: "utf8_decode latin1_env (compile_success_text latin1_sandbox) = None"
    by code_simp
  from compile_undecodable_text [OF run status stored undecodable] run undecodable
  show ?thesis by (simp add: demo_driver_def)
qed



lemma demo_grader_was_run: "grader_was_run (grader_env line) 0 demo_ready (grader_sandbox line)"
  by (simp add: grader_was_run_def candidate_was_run_def grader_env_def grader_sandbox_def
        demo_env_def demo_sandbox_def demo_ready_def demo_driver_def py_path_join_def)

lemma demo_grader_unparseable:
  "grader_output_unparseable (grader_env ''abc\<newline>'') (grader_sandbox ''abc\<newline>'')"
  by code_simp


text \<open>
  C2 (as amended): when an operation behind a safe sandbox helper raises an I/O error during
  \<open>compile\<close> or \<open>execute_single\<close>, the call does not return false: it ends by raising
  \<open>JobException\<close>. When the sandbox reports an internal error after the compiler was
  launched, \<open>compile\<close> returns false if the two output files of the compiler can be read,
  which it does before it looks at the status, and raises \<open>JobException\<close> if one of them
  cannot. When the sandbox reports an internal error after the program was launched,
  \<open>execute_single\<close> returns false; so it does when the grader was run, both files of its
  output were opened and its output cannot be parsed. As stated, with a false return for all
  three kinds of failure, the claim fails: a sandbox factory that raises makes both calls
  raise \<open>JobException\<close>.
\<close>

theorem environmental_failure:
  "((\<exists>e \<in> set (new_operations d (snd (compile w d))). helper_failed e)
      \<longrightarrow> fst (compile w d) = Raise JobException) \<and>
   ((\<exists>e \<in> set (new_operations d (snd (execute_single w i d))). helper_failed e)
      \<longrightarrow> fst (execute_single w i d) = Raise JobException) \<and>
   (compiler_was_launched w d sb \<and> get_exit_status sb = EXIT_SANDBOX_ERROR
      \<longrightarrow> fst (compile w d) =
            (if compiler_output_read sb then Return False else Raise JobException)) \<and>
   (candidate_was_run w i d sb \<and> get_exit_status sb = EXIT_SANDBOX_ERROR
      \<longrightarrow> fst (execute_single w i d) = Return False) \<and>
   (grader_was_run w i d sb \<and> grader_output_unparseable w sb
      \<longrightarrow> fst (execute_single w i d) = Return False)"
  using sandboxed_call_facts(3) [OF compile_sandboxed, of d w]
    sandboxed_call_facts(3) [OF execute_single_sandboxed, of d w i]
    compile_sandbox_error [of w d sb] execute_single_sandbox_error [of w i d sb]
    execute_single_unparseable [of w i d sb]
  by blast

lemma broken_factory_compile:
  "new_operations demo_driver (snd (compile broken_factory_env demo_driver))
     = [(0, OpCreate, False)]"
  by code_simp

lemma broken_factory_execute_single:
  "new_operations demo_ready (snd (execute_single broken_factory_env 0 demo_ready))
     = [(0, OpCreate, False)]"
  by code_simp

lemma create_failed: "helper_failed (0, OpCreate, False)"
  by (simp add: helper_failed_def)

lemma demo_compiler_was_launched:
  assumes "new_sandbox w 0 = Some sb"
    and "verify_source w = verify_source demo_env" and "files w = files demo_env"
    and "get_compilation_command w = get_compilation_command demo_env"
    and "create_file_from_storage sb = create_file_from_storage demo_sandbox"
    and "sandbox_execute sb = sandbox_execute demo_sandbox"
  shows "compiler_was_launched w demo_driver sb"
  using assms
  by (simp add: compiler_was_launched_def executable_name_def demo_env_def demo_sandbox_def
        demo_driver_def)

lemma faulty_compiler_was_launched: "compiler_was_launched faulty_env demo_driver faulty_sandbox"
  by (rule demo_compiler_was_launched)
     (simp_all add: faulty_env_def faulty_sandbox_def demo_env_def demo_sandbox_def)

lemma unreadable_compiler_was_launched:
  "compiler_was_launched unreadable_env demo_driver unreadable_sandbox"
  by (rule demo_compiler_was_launched)
     (simp_all add: unreadable_env_def unreadable_sandbox_def faulty_sandbox_def demo_env_def
        demo_sandbox_def)

lemma faulty_output_read: "compiler_output_read faulty_sandbox"
  by (simp add: compiler_output_read_def faulty_sandbox_def demo_sandbox_def)

lemma unreadable_output_read: "\<not> compiler_output_read unreadable_sandbox"
  by (simp add: compiler_output_read_def unreadable_sandbox_def)

lemma faulty_candidate_was_run: "candidate_was_run faulty_env 0 demo_ready faulty_sandbox"
  by (simp add: candidate_was_run_def faulty_env_def faulty_sandbox_def
        demo_env_def demo_sandbox_def demo_ready_def demo_driver_def)

theorem environmental_failure_witness:
  "fst (compile broken_factory_env demo_driver) = Raise JobException \<and>
   fst (execute_single broken_factory_env 0 demo_ready) = Raise JobException \<and>
   fst (compile faulty_env demo_driver) = Return False \<and>
   fst (compile unreadable_env demo_driver) = Raise JobException \<and>
   fst (execute_single faulty_env 0 demo_ready) = Return False \<and>
   fst (execute_single (grader_env ''abc\<newline>'') 0 demo_ready) = Return False"
proof -
  have status: "get_exit_status faulty_sandbox = EXIT_SANDBOX_ERROR"
    "get_exit_status unreadable_sandbox = EXIT_SANDBOX_ERROR"
    by (simp_all add: faulty_sandbox_def unreadable_sandbox_def)
  have 1: "fst (compile broken_factory_env demo_driver) = Raise JobException"
    using environmental_failure
      [where w = broken_factory_env and d = demo_driver, THEN conjunct1]
    by (simp add: broken_factory_compile create_failed)
  have 2: "fst (execute_single broken_factory_env 0 demo_ready) = Raise JobException"
    using environmental_failure
      [where w = broken_factory_env and d = demo_ready and i = 0,
       THEN conjunct2, THEN conjunct1]
    by (simp add: broken_factory_execute_single create_failed)
  have 3: "fst (compile faulty_env demo_driver) = Return False"
    using environmental_failure
      [where w = faulty_env and d = demo_driver and sb = faulty_sandbox,
       THEN conjunct2, THEN conjunct2, THEN conjunct1]
      faulty_compiler_was_launched faulty_output_read status
    by simp
  have unreadable: "fst (compile unreadable_env demo_driver) = Raise JobException"
    using environmental_failure
      [where w = unreadable_env and d = demo_driver and sb = unreadable_sandbox,
       THEN conjunct2, THEN conjunct2, THEN conjunct1]
      unreadable_compiler_was_launched unreadable_output_read status
    by simp
  have 4: "fst (execute_single faulty_env 0 demo_ready) = Return False"
    using environmental_failure
      [where w = faulty_env and d = demo_ready and i = 0 and sb = faulty_sandbox,
       THEN conjunct2, THEN conjunct2, THEN conjunct2, THEN conjunct1]
      faulty_candidate_was_run status
    by simp
  have 5: "fst (execute_single (grader_env ''abc\<newline>'') 0 demo_ready) = Return False"
    using environmental_failure
      [where w = "grader_env ''abc\<newline>''" and d = demo_ready and i = 0
         and sb = "grader_sandbox ''abc\<newline>''",
       THEN conjunct2, THEN conjunct2, THEN conjunct2, THEN conjunct2]
      demo_grader_was_run [of "''abc\<newline>''"] demo_grader_unparseable
    by simp
  from 1 2 3 unreadable 4 5 show ?thesis by simp
qed

theorem helper_failure_raises_counterexample:
  "fst (compile broken_factory_env demo_driver) = Raise JobException \<and>
   fst (execute_single broken_factory_env 0 demo_ready) = Raise JobException \<and>
   fst (compile no_store_env demo_driver) = Raise JobException"
  by code_simp

section \<open>Independence of the exit code\<close>

lemmas forget_defs = forget_exit_code_def forget_exit_codes_def forget_in_driver_def

lemma same_run_bnd:
  assumes m: "same_run m' m" and f: "\<And>a. same_run (f' a) (f a)"
  shows "same_run (bnd m' f') (bnd m f)"
  unfolding same_run_def
proof (intro allI)
  fix d
  obtain r d1 where md: "m d = (r, d1)" by (cases "m d")
  have m': "m' (forget_in_driver d) = (r, forget_in_driver d1)"
    using m [unfolded same_run_def, rule_format, of d] md by simp
  show "bnd m' f' (forget_in_driver d) = (fst (bnd m f d), forget_in_driver (snd (bnd m f d)))"
  proof (cases r)
    case (Return a)
    have "f' a (forget_in_driver d1) = (fst (f a d1), forget_in_driver (snd (f a d1)))"
      using f [of a, unfolded same_run_def, rule_format, of d1] .
    then show ?thesis using md m' Return by (simp add: bnd_def)
  next
    case (Raise e)
    then show ?thesis using md m' by (simp add: bnd_def)
  next
    case Hang
    then show ?thesis using md m' by (simp add: bnd_def)
  qed
qed

lemma same_run_the_sandbox:
  assumes f: "\<And>n sb. same_run (f' n (forget_exit_code sb)) (f n sb)"
  shows "same_run (bnd the_sandbox (\<lambda>(n, sb). f' n sb)) (bnd the_sandbox (\<lambda>(n, sb). f n sb))"
  unfolding same_run_def
proof (intro allI)
  fix d
  show "bnd the_sandbox (\<lambda>(n, sb). f' n sb) (forget_in_driver d)
          = (fst (bnd the_sandbox (\<lambda>(n, sb). f n sb) d),
             forget_in_driver (snd (bnd the_sandbox (\<lambda>(n, sb). f n sb) d)))"
  proof (cases "sandbox d")
    case None
    then show ?thesis by (simp add: bnd_def the_sandbox_def forget_in_driver_def)
  next
    case (Some s)
    obtain n sb where s: "s = (n, sb)" by (cases s)
    have "f' n (forget_exit_code sb) (forget_in_driver d)
            = (fst (f n sb d), forget_in_driver (snd (f n sb d)))"
      using f [of n sb, unfolded same_run_def, rule_format, of d] .
    then show ?thesis
      using Some s by (simp add: bnd_def the_sandbox_def forget_in_driver_def)
  qed
qed

lemma same_run_helpers:
  "same_run (safe_create_sandbox (forget_exit_codes w)) (safe_create_sandbox w)"
  "same_run (safe_create_file_from_storage (forget_exit_codes w) name digest executable)
            (safe_create_file_from_storage w name digest executable)"
  "same_run (safe_get_file (forget_exit_codes w) name) (safe_get_file w name)"
  "same_run (safe_sandbox_execute (forget_exit_codes w) command)
            (safe_sandbox_execute w command)"
  "same_run get_executable_filename get_executable_filename"
  "same_run (get_executable_digest name) (get_executable_digest name)"
  "same_run (get_testcase (forget_exit_codes w) i) (get_testcase w i)"
  "same_run (call_white_diff out_file res_file) (call_white_diff out_file res_file)"
  "same_run (py_raise e) (py_raise e)"
  "same_run (finish_single_execution (forget_exit_codes w) i success outcome text)
            (finish_single_execution w i success outcome text)"
  by (auto simp: same_run_def forget_defs safe_create_sandbox_def
        safe_create_file_from_storage_def safe_get_file_def safe_sandbox_execute_def
        get_executable_filename_def get_executable_digest_def get_testcase_def
        call_white_diff_def py_raise_def finish_single_execution_def safe_delete_sandbox_def
        record_op_def Let_def split: option.split)

lemma same_run_configure:
  "(\<And>s. f' (forget_exit_code s) = forget_exit_code (f s))
     \<Longrightarrow> same_run (configure f') (configure f)"
  by (auto simp: same_run_def configure_def forget_in_driver_def split: option.split)

lemma same_run_if:
  "(c \<Longrightarrow> same_run a' a) \<Longrightarrow> (\<not> c \<Longrightarrow> same_run b' b)
     \<Longrightarrow> same_run (if c then a' else b') (if c then a else b)"
  by simp

lemma same_run_prod:
  "(\<And>a b. same_run (f' a b) (f a b))
     \<Longrightarrow> same_run (case p of (a, b) \<Rightarrow> f' a b) (case p of (a, b) \<Rightarrow> f a b)"
  by (cases p) simp

lemma same_run_option:
  "same_run a' a \<Longrightarrow> (\<And>y. same_run (f' y) (f y))
     \<Longrightarrow> same_run (case x of None \<Rightarrow> a' | Some y \<Rightarrow> f' y) (case x of None \<Rightarrow> a | Some y \<Rightarrow> f y)"
  by (cases x) simp_all

lemma same_run_host_file:
  "same_run a' a \<Longrightarrow> same_run b' b \<Longrightarrow> (\<And>l. same_run (f' l) (f l))
     \<Longrightarrow> same_run (case h of NoSuchFile \<Rightarrow> a' | Undecodable \<Rightarrow> b' | FirstLine l \<Rightarrow> f' l)
                  (case h of NoSuchFile \<Rightarrow> a | Undecodable \<Rightarrow> b | FirstLine l \<Rightarrow> f l)"
  by (cases h) simp_all

lemmas same_run_rules =
  same_run_the_sandbox same_run_bnd same_run_configure same_run_if same_run_prod
  same_run_option same_run_host_file same_run_helpers

lemma forget_exit_codes_simps:
  "keep_sandbox (forget_exit_codes w) = keep_sandbox w"
  "testcases (forget_exit_codes w) = testcases w"
  "managers (forget_exit_codes w) = managers w"
  "time_limit (forget_exit_codes w) = time_limit w"
  "memory_limit (forget_exit_codes w) = memory_limit w"
  "filter_ansi_escape (forget_exit_codes w) = filter_ansi_escape w"
  "py_float (forget_exit_codes w) = py_float w"
  "unicode_strip (forget_exit_codes w) = unicode_strip w"
  by (simp_all add: forget_exit_codes_def)

lemma forget_exit_code_simps:
  "path (forget_exit_code sb) = path sb"
  "relative_path (forget_exit_code sb) = relative_path sb"
  "get_exit_status (forget_exit_code sb) = get_exit_status sb"
  "get_killing_signal (forget_exit_code sb) = get_killing_signal sb"
  "file_exists (forget_exit_code sb) = file_exists sb"
  "codecs_open (forget_exit_code sb) = codecs_open sb"
  by (simp_all add: forget_exit_code_def)

lemma execute_single_same_run:
  "same_run (execute_single (forget_exit_codes w) i) (execute_single w i)"
  unfolding execute_single_def Let_def forget_exit_codes_simps
  by (intro same_run_rules conjI impI | simp only: forget_exit_code_simps
      | simp add: forget_exit_code_def)+

lemma forget_in_driver_evaluations: "evaluations (forget_in_driver d) = evaluations d"
  by (simp add: forget_in_driver_def)

text \<open>
  C9: two runs of \<open>execute_single\<close> from the same state, in environments that are identical
  except for the exit codes reported by their sandboxes, end with the same result and the
  same evaluations, hence with the same outcome and text for the testcase. This holds for
  every status of the sandbox, in particular for status OK, where the verdict then depends
  on the output file only: \<open>execute_single\<close> reads the exit code and never uses it.
\<close>

theorem exit_code_irrelevant:
  assumes same: "forget_exit_codes w1 = forget_exit_codes w2"
  shows "fst (execute_single w1 i d) = fst (execute_single w2 i d) \<and>
         evaluations (snd (execute_single w1 i d)) = evaluations (snd (execute_single w2 i d))"
proof -
  have 1: "execute_single (forget_exit_codes w1) i (forget_in_driver d)
             = (fst (execute_single w1 i d), forget_in_driver (snd (execute_single w1 i d)))"
    using execute_single_same_run [of w1 i, unfolded same_run_def] by blast
  have 2: "execute_single (forget_exit_codes w2) i (forget_in_driver d)
             = (fst (execute_single w2 i d), forget_in_driver (snd (execute_single w2 i d)))"
    using execute_single_same_run [of w2 i, unfolded same_run_def] by blast
  from 1 2 same have results: "fst (execute_single w1 i d) = fst (execute_single w2 i d)"
    and states: "forget_in_driver (snd (execute_single w1 i d))
                   = forget_in_driver (snd (execute_single w2 i d))"
    by simp_all
  from states have "evaluations (forget_in_driver (snd (execute_single w1 i d)))
                      = evaluations (forget_in_driver (snd (execute_single w2 i d)))"
    by simp
  then show ?thesis using results by (simp add: forget_in_driver_evaluations)
qed

theorem exit_code_irrelevant_witness:
  "forget_exit_codes demo_env = forget_exit_codes (exit_code_env 3) \<and>
   get_exit_code demo_sandbox = 0 \<and>
   get_exit_status demo_sandbox = EXIT_OK \<and>
   fst (execute_single demo_env 0 demo_ready)
     = fst (execute_single (exit_code_env 3) 0 demo_ready) \<and>
   evaluations (snd (execute_single demo_env 0 demo_ready))
     = evaluations (snd (execute_single (exit_code_env 3) 0 demo_ready))"
proof -
  have same: "forget_exit_codes demo_env = forget_exit_codes (exit_code_env 3)"
    by (simp add: forget_exit_codes_def forget_exit_code_def exit_code_env_def demo_env_def)
  from exit_code_irrelevant [OF same, of 0 demo_ready] same show ?thesis
    by (simp add: demo_sandbox_def)
qed

end
